theory Spec2Isabelle
  imports Main "HOL-Library.Char_ord" "HOL-Library.Product_Lexorder"
begin

section \<open>Python values used by the helpers\<close>

text \<open>
  Exceptions are values. A \<open>ValueError\<close> carries its message, since the helpers
  distinguish their input-contract errors by it.
\<close>

datatype error =
    ValueError string
  | AttributeError
  | IndexError
  | KeyError
  | UnboundLocalError

text \<open>
  A generator is modelled by what iterating it to the end observes: the items it
  yielded, in order, and the exception that ended the iteration, if any.
\<close>

type_synonym 'a gen = "'a list \<times> error option"

definition gen_yield :: "'a list \<Rightarrow> 'a gen" where
  "gen_yield xs = (xs, None)"

definition gen_raise :: "error \<Rightarrow> 'a gen" where
  "gen_raise e = ([], Some e)"

text \<open>Running one generator after another: the second runs only if the first ended normally.\<close>

definition gen_then :: "'a gen \<Rightarrow> 'a gen \<Rightarrow> 'a gen" where
  "gen_then g h =
     (case snd g of
        Some e \<Rightarrow> g
      | None \<Rightarrow> (fst g @ fst h, snd h))"

fun gen_chain :: "'a gen list \<Rightarrow> 'a gen" where
  "gen_chain [] = ([], None)"
| "gen_chain (g # gs) = gen_then g (gen_chain gs)"

text \<open>
  A generator object. Calling a function whose body contains \<open>yield\<close> runs none of
  the body: the call returns the generator, and the body runs when the generator is
  advanced. The object holds what its body will do: the items it yields and the exception
  that ends it, if any.
\<close>

datatype 'a generator = Generator (gen_body: "'a gen")

text \<open>
  \<open>next(g)\<close>: the body runs to its next \<open>yield\<close> (the item is returned), to the
  statement that raises (the exception reaches the caller of \<open>next\<close>), or to its end
  (\<open>None\<close> here, \<open>StopIteration\<close> in Python).
\<close>

definition py_next :: "'a generator \<Rightarrow> (error + 'a option) \<times> 'a generator" where
  "py_next g =
     (case gen_body g of
        (x # xs, e) \<Rightarrow> (Inr (Some x), Generator (xs, e))
      | ([], Some e) \<Rightarrow> (Inl e, Generator ([], None))
      | ([], None) \<Rightarrow> (Inr None, Generator ([], None)))"

text \<open>
  \<open>[x for x in g]\<close>: the generator is run to its end; an exception of the body ends
  the comprehension, and the items before it are lost.
\<close>

definition py_list :: "'a generator \<Rightarrow> error + 'a list" where
  "py_list g = (case gen_body g of (xs, None) \<Rightarrow> Inr xs | (xs, Some e) \<Rightarrow> Inl e)"

text \<open>
  \<open>xs[a:b]\<close> with Python's rules: a negative index counts from the end, and both
  indices are clamped to the list.
\<close>

definition py_index :: "nat \<Rightarrow> int \<Rightarrow> nat" where
  "py_index n i = (if i < 0 then nat (max (i + int n) 0) else min (nat i) n)"

definition py_slice :: "'a list \<Rightarrow> int \<Rightarrow> int \<Rightarrow> 'a list" where
  "py_slice xs a b =
     (let lo = py_index (length xs) a; hi = py_index (length xs) b
      in take (hi - lo) (drop lo xs))"

text \<open>\<open>range(k)\<close> for a Python integer \<open>k\<close>: empty when \<open>k \<le> 0\<close>.\<close>

definition py_range :: "int \<Rightarrow> nat list" where
  "py_range k = [0..<nat k]"

text \<open>\<open>delim.join(tokens)\<close>.\<close>

fun join :: "string \<Rightarrow> string list \<Rightarrow> string" where
  "join delim [] = []"
| "join delim [t] = t"
| "join delim (t # ts) = t @ delim @ join delim ts"

text \<open>\<open>str.lower()\<close> and \<open>str.isalpha()\<close> on ASCII strings.\<close>

definition is_upper :: "char \<Rightarrow> bool" where
  "is_upper c = (65 \<le> (of_char c :: nat) \<and> (of_char c :: nat) \<le> 90)"

definition is_lower :: "char \<Rightarrow> bool" where
  "is_lower c = (97 \<le> (of_char c :: nat) \<and> (of_char c :: nat) \<le> 122)"

definition py_lower :: "string \<Rightarrow> string" where
  "py_lower s = map (\<lambda>c. if is_upper c then char_of ((of_char c :: nat) + 32) else c) s"

definition py_isalpha :: "string \<Rightarrow> bool" where
  "py_isalpha s = (s \<noteq> [] \<and> list_all (\<lambda>c. is_upper c \<or> is_lower c) s)"

section \<open>utils.py: the n-gram generator\<close>

text \<open>
  \<^verbatim>\<open>
  def slice_into_ngrams(tokens, n_max=3, delim='_'):
      N = len(tokens)
      for root in range(N):
          for n in range(min(n_max, N - root)):
              yield delim.join(tokens[root:root+n+1])
  \<close>
\<close>

definition slice_into_ngrams :: "string list \<Rightarrow> int \<Rightarrow> string \<Rightarrow> string list" where
  "slice_into_ngrams tokens n_max delim =
     concat (map (\<lambda>root.
               map (\<lambda>n. join delim (py_slice tokens (int root) (int root + int n + 1)))
                   (py_range (min n_max (int (length tokens) - int root))))
             (py_range (int (length tokens))))"

text \<open>The pairs \<open>(root, n)\<close> the two loops visit, in the order they visit them.\<close>

definition loop_indices :: "nat \<Rightarrow> int \<Rightarrow> (nat \<times> nat) list" where
  "loop_indices N n_max =
     concat (map (\<lambda>root. map (\<lambda>n. (root, n)) (py_range (min n_max (int N - int root))))
             (py_range (int N)))"

text \<open>
  The count the specification states for bounds \<open>n_min\<close>, \<open>n_max\<close>: the sum over
  each length \<open>n\<close> of \<open>len - n + 1\<close>, zero when \<open>len < n\<close> (subtraction on \<open>nat\<close>
  truncates).
\<close>

definition spec_ngram_count :: "nat \<Rightarrow> nat \<Rightarrow> nat \<Rightarrow> nat" where
  "spec_ngram_count len n_min n_max = (\<Sum>n = n_min..n_max. len + 1 - n)"

section \<open>The framework's objects\<close>

text \<open>
  The helpers work on the framework's document model (\<open>models\<close>, not among the
  sources): an object is a record of the attributes the helpers read, and carries a
  number that stands for its identity, so that \<open>==\<close> and \<open>!=\<close> on objects are
  equality of records. References that would make the object graph cyclic (a phrase's
  cell and table) are numbers; the cells of each table are looked up in a function
  \<open>tables\<close> from table numbers to \<open>table.cells\<close>.
\<close>

record phrase =
  phrase_id :: nat
  phrase_text :: string
  attribs :: "(string \<times> string list) list"
  table :: "nat option"
  cell :: "nat option"
  row_start :: "nat option"
  col_start :: "nat option"

text \<open>
  A span: \<open>word_start\<close> and \<open>word_end\<close> are what \<open>get_word_start()\<close> and
  \<open>get_word_end()\<close> return, the indices of its first and last token in the parent.
\<close>

record span =
  parent :: phrase
  char_start :: nat
  char_end :: nat
  word_start :: nat
  word_end :: nat

text \<open>An argument of a candidate is a span or some other object, on which every
  attribute access fails.\<close>

datatype arg = SpanArg span | OtherArg

text \<open>The argument \<open>c\<close> of a helper: a span (\<open>TemporarySpan\<close>) or a candidate.\<close>

datatype lf_input = ASpan span | Candidate "arg list"

text \<open>A row or a column of a table, with its position.\<close>

record line =
  line_id :: nat
  position :: nat

record cell =
  cell_id :: nat
  cell_text :: string
  row :: line
  col :: line
  cell_row_start :: nat
  cell_col_start :: nat
  phrases :: "phrase list"
  cell_table :: nat

datatype axis = Row | Col

text \<open>
  The names the helpers import from modules that are not among the sources, taken as
  parameters: \<open>tokens_to_ngrams(tokens, n_min, n_max, lower)\<close>, and from
  \<open>table_utils\<close> \<open>is_axis_aligned(phrase, cell, axis)\<close>,
  \<open>min_row_diff(phrase, cell, absolute=False)\<close> and \<open>min_col_diff\<close> (the cell
  given by its number, \<open>None\<close> when the phrase has none).
\<close>

record externals =
  tokens_to_ngrams :: "string list \<Rightarrow> int \<Rightarrow> int \<Rightarrow> bool \<Rightarrow> string list"
  is_axis_aligned :: "phrase \<Rightarrow> cell \<Rightarrow> axis \<Rightarrow> bool"
  min_row_diff :: "phrase \<Rightarrow> nat option \<Rightarrow> int"
  min_col_diff :: "phrase \<Rightarrow> nat option \<Rightarrow> int"

section \<open>lf\_helpers.py: text helpers\<close>

text \<open>\<open>c.get_arguments()\<close>: a span has no such method.\<close>

definition get_arguments :: "lf_input \<Rightarrow> error + arg list" where
  "get_arguments c = (case c of ASpan s \<Rightarrow> Inl AttributeError | Candidate args \<Rightarrow> Inr args)"

text \<open>
  The first loop of \<open>get_text_splits\<close>, from index \<open>i\<close> on:
  \<^verbatim>\<open>
  for i, span in enumerate(c.get_arguments()):
      if not isinstance(span, TemporarySpan):
          raise ValueError("Handles Span-type Candidate arguments only")
      spans.append((span.char_start, span.char_end, chr(65+i)))
  \<close>
  \<open>chr\<close> raises a \<open>ValueError\<close> of its own from 256 on.
\<close>

fun tag_spans :: "nat \<Rightarrow> arg list \<Rightarrow> error + (nat \<times> nat \<times> char) list" where
  "tag_spans i [] = Inr []"
| "tag_spans i (OtherArg # as) = Inl (ValueError ''Handles Span-type Candidate arguments only'')"
| "tag_spans i (SpanArg span # as) =
     (if 65 + i < 256 then
        (case tag_spans (Suc i) as of
           Inl e \<Rightarrow> Inl e
         | Inr spans \<Rightarrow> Inr ((char_start span, char_end span, char_of (65 + i)) # spans))
      else Inl (ValueError ''chr() arg not in range(256)''))"

text \<open>\<open>"{{%s}}" % tag\<close>.\<close>

definition tag_chunk :: "char \<Rightarrow> string" where
  "tag_chunk t = ''{{'' @ [t] @ ''}}''"

text \<open>
  The second loop, over the sorted spans:
  \<^verbatim>\<open>
  for j in range(len(spans)-1):
      chunks.append(text[spans[j][1]+1:spans[j+1][0]])
      chunks.append("{{%s}}" % spans[j+1][2])
  \<close>
\<close>

fun gap_chunks :: "string \<Rightarrow> (nat \<times> nat \<times> char) list \<Rightarrow> string list" where
  "gap_chunks txt (s # s' # rest) =
     py_slice txt (int (fst (snd s)) + 1) (int (fst s')) # tag_chunk (snd (snd s'))
       # gap_chunks txt (s' # rest)"
| "gap_chunks txt rest = []"

text \<open>
  \<open>get_text_splits\<close>. After the first loop \<open>span\<close> is the last argument; with no
  argument at all the name is unbound when \<open>span.parent.text\<close> reads it.
\<close>

definition get_text_splits :: "lf_input \<Rightarrow> error + string list" where
  "get_text_splits c =
     (case get_arguments c of
        Inl e \<Rightarrow> Inl e
      | Inr args \<Rightarrow>
          (case tag_spans 0 args of
             Inl e \<Rightarrow> Inl e
           | Inr tagged \<Rightarrow>
               (case rev args of
                  [] \<Rightarrow> Inl UnboundLocalError
                | OtherArg # _ \<Rightarrow> Inl AttributeError
                | SpanArg span # _ \<Rightarrow>
                    (let spans = sort tagged;
                         txt = phrase_text (parent span)
                     in Inr ([py_slice txt 0 (int (fst (hd spans))), tag_chunk (snd (snd (hd spans)))]
                             @ gap_chunks txt spans
                             @ [py_slice txt (int (fst (snd (last spans))) + 1) (int (length txt))])))))"

text \<open>\<open>span = c if isinstance(c, TemporarySpan) else c[0]\<close>, and the same with \<open>c[-1]\<close>.\<close>

definition first_span :: "lf_input \<Rightarrow> error + span" where
  "first_span c =
     (case c of
        ASpan s \<Rightarrow> Inr s
      | Candidate [] \<Rightarrow> Inl IndexError
      | Candidate (SpanArg s # _) \<Rightarrow> Inr s
      | Candidate (OtherArg # _) \<Rightarrow> Inl AttributeError)"

definition last_span :: "lf_input \<Rightarrow> error + span" where
  "last_span c =
     (case c of
        ASpan s \<Rightarrow> Inr s
      | Candidate args \<Rightarrow>
          (case rev args of
             [] \<Rightarrow> Inl IndexError
           | SpanArg s # _ \<Rightarrow> Inr s
           | OtherArg # _ \<Rightarrow> Inl AttributeError))"

text \<open>
  \<^verbatim>\<open>
  def get_left_ngrams(c, window=3, attrib='words', n_min=1, n_max=1, lower=True):
      span = c if isinstance(c, TemporarySpan) else c[0]
      i    = span.get_word_start()
      for ngram in tokens_to_ngrams(span.parent._asdict()[attrib][max(0, i-window):i], ...):
          yield ngram
  \<close>
\<close>

definition get_left_ngrams ::
  "externals \<Rightarrow> lf_input \<Rightarrow> int \<Rightarrow> string \<Rightarrow> int \<Rightarrow> int \<Rightarrow> bool \<Rightarrow> string gen" where
  "get_left_ngrams X c window attrib n_min n_max lower =
     (case first_span c of
        Inl e \<Rightarrow> gen_raise e
      | Inr span \<Rightarrow>
          (let i = int (word_start span) in
           case map_of (attribs (parent span)) attrib of
             None \<Rightarrow> gen_raise KeyError
           | Some toks \<Rightarrow>
               gen_yield (tokens_to_ngrams X (py_slice toks (max 0 (i - window)) i) n_min n_max lower)))"

text \<open>
  \<^verbatim>\<open>
  def get_right_ngrams(c, window=3, attrib='words', n_min=1, n_max=1, lower=True):
      span = c if isinstance(c, TemporarySpan) else c[-1]
      i    = span.get_word_end()
      for ngram in tokens_to_ngrams(span.parent._asdict()[attrib][i+1:i+1+window], ...):
          yield ngram
  \<close>
\<close>

definition get_right_ngrams ::
  "externals \<Rightarrow> lf_input \<Rightarrow> int \<Rightarrow> string \<Rightarrow> int \<Rightarrow> int \<Rightarrow> bool \<Rightarrow> string gen" where
  "get_right_ngrams X c window attrib n_min n_max lower =
     (case last_span c of
        Inl e \<Rightarrow> gen_raise e
      | Inr span \<Rightarrow>
          (let i = int (word_end span) in
           case map_of (attribs (parent span)) attrib of
             None \<Rightarrow> gen_raise KeyError
           | Some toks \<Rightarrow>
               gen_yield (tokens_to_ngrams X (py_slice toks (i + 1) (i + 1 + window)) n_min n_max lower)))"

text \<open>
  \<^verbatim>\<open>
  def get_between_ngrams(c, attrib='words', n_min=1, n_max=1, lower=True):
      if len(c.get_arguments()) != 2:
          raise ValueError("Only applicable to binary Candidates")
      span0 = c[0]
      span1 = c[1]
      if span0.parent != span1.parent:
          raise ValueError("Only applicable to Candidates where both spans are from the same immediate Context.")
      distance = abs(span0.get_word_start() - span1.get_word_start())
      if span0.get_word_start() < span1.get_word_start():
          for ngram in get_right_ngrams(span0, window=distance-1, ...):
              yield ngram
      else: # span0.get_word_start() > span1.get_word_start()
          for ngram in get_left_ngrams(span1, window=distance-1, ...):
              yield ngram
  \<close>
\<close>

definition get_between_ngrams ::
  "externals \<Rightarrow> lf_input \<Rightarrow> string \<Rightarrow> int \<Rightarrow> int \<Rightarrow> bool \<Rightarrow> string gen" where
  "get_between_ngrams X c attrib n_min n_max lower =
     (case get_arguments c of
        Inl e \<Rightarrow> gen_raise e
      | Inr args \<Rightarrow>
          if length args \<noteq> 2 then gen_raise (ValueError ''Only applicable to binary Candidates'')
          else
            (case (args ! 0, args ! 1) of
               (SpanArg span0, SpanArg span1) \<Rightarrow>
                 if parent span0 \<noteq> parent span1 then
                   gen_raise (ValueError
                     ''Only applicable to Candidates where both spans are from the same immediate Context.'')
                 else
                   (let distance = abs (int (word_start span0) - int (word_start span1)) in
                    if word_start span0 < word_start span1 then
                      get_right_ngrams X (ASpan span0) (distance - 1) attrib n_min n_max lower
                    else
                      get_left_ngrams X (ASpan span1) (distance - 1) attrib n_min n_max lower)
             | _ \<Rightarrow> gen_raise AttributeError))"

text \<open>
  The definition above is the body of \<open>get_between_ngrams\<close>: what happens while
  the generator is iterated. The call itself, \<open>get_between_ngrams(c, ...)\<close>, only
  builds the generator, since the body contains \<open>yield\<close> (lines 80 and 83): both
  \<open>raise\<close> statements are reached at the first \<open>next\<close>, not at the call.
\<close>

definition call_get_between_ngrams ::
  "externals \<Rightarrow> lf_input \<Rightarrow> string \<Rightarrow> int \<Rightarrow> int \<Rightarrow> bool \<Rightarrow> error + string generator" where
  "call_get_between_ngrams X c attrib n_min n_max lower =
     Inr (Generator (get_between_ngrams X c attrib n_min n_max lower))"

text \<open>
  \<^verbatim>\<open>
  def get_between_tokens(c, attrib='words', n_min=1, n_max=1, lower=True):
      return [ngram for ngram in get_between_ngrams(c, attrib=attrib, n_min=n_min, n_max=n_max, lower=lower)]
  \<close>
  An ordinary function: it runs the generator to its end before it returns.
\<close>

definition get_between_tokens ::
  "externals \<Rightarrow> lf_input \<Rightarrow> string \<Rightarrow> int \<Rightarrow> int \<Rightarrow> bool \<Rightarrow> error + string list" where
  "get_between_tokens X c attrib n_min n_max lower =
     (case call_get_between_ngrams X c attrib n_min n_max lower of
        Inl e \<Rightarrow> Inl e
      | Inr g \<Rightarrow> py_list g)"

text \<open>
  The tokens that lie strictly between two spans of one parent, whichever comes first:
  what the specification says the between-extractor reads.
\<close>

definition spec_between_tokens :: "string list \<Rightarrow> span \<Rightarrow> span \<Rightarrow> string list" where
  "spec_between_tokens toks a b =
     (if word_end a < word_start b then py_slice toks (int (word_end a) + 1) (int (word_start b))
      else if word_end b < word_start a then py_slice toks (int (word_end b) + 1) (int (word_start a))
      else [])"

text \<open>
  \<^verbatim>\<open>
  def get_phrase_ngrams(c, attrib='words', n_min=1, n_max=1, lower=True):
      spans = [c] if isinstance(c, TemporarySpan) else c.get_arguments()
      for span in spans:
          for ngram in get_left_ngrams(span, window=100, ...):
              yield ngram
          for ngram in get_right_ngrams(span, window=100, ...):
              yield ngram
  \<close>
\<close>

definition spans_of :: "lf_input \<Rightarrow> arg list" where
  "spans_of c = (case c of ASpan s \<Rightarrow> [SpanArg s] | Candidate args \<Rightarrow> args)"

definition get_phrase_ngrams ::
  "externals \<Rightarrow> lf_input \<Rightarrow> string \<Rightarrow> int \<Rightarrow> int \<Rightarrow> bool \<Rightarrow> string gen" where
  "get_phrase_ngrams X c attrib n_min n_max lower =
     gen_chain (map (\<lambda>a. case a of
                       OtherArg \<Rightarrow> gen_raise AttributeError
                     | SpanArg span \<Rightarrow>
                         gen_then (get_left_ngrams X (ASpan span) 100 attrib n_min n_max lower)
                                  (get_right_ngrams X (ASpan span) 100 attrib n_min n_max lower))
                (spans_of c))"

section \<open>lf\_helpers.py: table helpers\<close>

text \<open>\<open>_other_axis(axis)\<close>: \<^verbatim>\<open>'row' if axis=='col' else 'col'\<close>.\<close>

definition other_axis :: "axis \<Rightarrow> axis" where
  "other_axis axis = (if axis = Col then Row else Col)"

text \<open>\<open>getattr(cell, axis)\<close> and \<open>getattr(cell, axis + '_start')\<close>.\<close>

definition axis_line :: "axis \<Rightarrow> cell \<Rightarrow> line" where
  "axis_line axis c = (case axis of Row \<Rightarrow> row c | Col \<Rightarrow> col c)"

definition axis_start :: "axis \<Rightarrow> cell \<Rightarrow> nat" where
  "axis_start axis c = (case axis of Row \<Rightarrow> cell_row_start c | Col \<Rightarrow> cell_col_start c)"

text \<open>What \<open>_infer_cell\<close> returns: a cell of the table, or a \<open>PhantomCell\<close>.\<close>

datatype cell_like = RealCell cell | PhantomCell "phrase list"

fun phrases_of :: "cell_like \<Rightarrow> phrase list" where
  "phrases_of (RealCell c) = phrases c"
| "phrases_of (PhantomCell ps) = ps"

text \<open>The two tests of \<open>_infer_cell\<close>:
  \<^verbatim>\<open>
  empty = len(root_cell.text) == 9
  edge = getattr(root_cell, _other_axis(axis) + '_start') == 0
  \<close>
\<close>

definition is_empty :: "cell \<Rightarrow> bool" where
  "is_empty root_cell = (length (cell_text root_cell) = 9)"

definition is_edge :: "cell \<Rightarrow> axis \<Rightarrow> bool" where
  "is_edge root_cell axis = (axis_start (other_axis axis) root_cell = 0)"

text \<open>
  \<^verbatim>\<open>
  neighbor_cells = [cell for cell in root_cell.table.cells
      if getattr(cell, axis) == getattr(root_cell, axis)
      and getattr(cell, _other_axis(axis)).position
          == getattr(root_cell, _other_axis(axis)).position - 1]
  \<close>
\<close>

definition is_neighbor :: "cell \<Rightarrow> axis \<Rightarrow> cell \<Rightarrow> bool" where
  "is_neighbor root_cell axis c =
     (axis_line axis c = axis_line axis root_cell \<and>
      int (position (axis_line (other_axis axis) c))
        = int (position (axis_line (other_axis axis) root_cell)) - 1)"

definition neighbor_cells :: "(nat \<Rightarrow> cell list) \<Rightarrow> cell \<Rightarrow> axis \<Rightarrow> cell list" where
  "neighbor_cells tables root_cell axis =
     filter (is_neighbor root_cell axis) (tables (cell_table root_cell))"

text \<open>
  \<^verbatim>\<open>
  def _infer_cell(root_cell, axis, direct, infer):
      # NOTE: not defined for direct = False and infer = False
      # TODO: Fix this hack; checking for len(text)==9 checks if cell is "<td></td>"
      empty = len(root_cell.text) == 9
      edge = getattr(root_cell, _other_axis(axis) + '_start') == 0
      if direct and (not empty or edge or not infer):
          return root_cell
      else:
          if edge or not empty:
              return PhantomCell(phrases=[])
          else:
              neighbor_cells = [...]
              return _infer_cell(neighbor_cells[0], axis, direct=True, infer=True)
  \<close>
  \<open>neighbor_cells[0]\<close> raises \<open>IndexError\<close> when no cell qualifies. Each call moves
  to a cell whose position along the other axis is one less, so the recursion ends.
\<close>

function infer_cell ::
  "(nat \<Rightarrow> cell list) \<Rightarrow> cell \<Rightarrow> axis \<Rightarrow> bool \<Rightarrow> bool \<Rightarrow> error + cell_like" where
  "infer_cell tables root_cell axis direct infer =
     (if direct \<and> (\<not> is_empty root_cell \<or> is_edge root_cell axis \<or> \<not> infer) then
        Inr (RealCell root_cell)
      else if is_edge root_cell axis \<or> \<not> is_empty root_cell then
        Inr (PhantomCell [])
      else
        (case neighbor_cells tables root_cell axis of
           [] \<Rightarrow> Inl IndexError
         | c # _ \<Rightarrow> infer_cell tables c axis True True))"
  by pat_completeness auto
termination
proof (relation "measure (\<lambda>(tables, root_cell, axis, direct, infer).
                   position (axis_line (other_axis axis) root_cell))")
  show "wf (measure (\<lambda>(tables, root_cell, axis, direct, infer).
              position (axis_line (other_axis axis) root_cell)))"
    by simp
next
  fix tables :: "nat \<Rightarrow> cell list" and root_cell :: cell and axis :: axis
    and direct infer :: bool and c :: cell and rest :: "cell list"
  assume "neighbor_cells tables root_cell axis = c # rest"
  then have "c \<in> set (filter (is_neighbor root_cell axis) (tables (cell_table root_cell)))"
    by (simp add: neighbor_cells_def)
  then have "is_neighbor root_cell axis c"
    by simp
  then show "((tables, c, axis, True, True), (tables, root_cell, axis, direct, infer))
             \<in> measure (\<lambda>(tables, root_cell, axis, direct, infer).
                   position (axis_line (other_axis axis) root_cell))"
    by (simp add: is_neighbor_def)
qed

text \<open>The equation of \<open>infer_cell\<close> is unfolded by hand, one call at a time.\<close>

declare infer_cell.simps [simp del]

text \<open>A list comprehension over calls that may raise: the first error ends it.\<close>

fun collect :: "(error + 'a list) list \<Rightarrow> error + 'a list" where
  "collect [] = Inr []"
| "collect (Inl e # rs) = Inl e"
| "collect (Inr xs # rs) = (case collect rs of Inl e \<Rightarrow> Inl e | Inr ys \<Rightarrow> Inr (xs @ ys))"

text \<open>
  \<^verbatim>\<open>
  def _get_aligned_phrases(root_phrase, axis, direct=True, infer=False):
      return [phrase for cell in root_phrase.table.cells
                  if is_axis_aligned(root_phrase, cell, axis=axis)
                  for phrase in _infer_cell(cell, _other_axis(axis), direct, infer).phrases
                      if phrase!=root_phrase]
  \<close>
\<close>

definition get_aligned_phrases ::
  "externals \<Rightarrow> (nat \<Rightarrow> cell list) \<Rightarrow> phrase \<Rightarrow> axis \<Rightarrow> bool \<Rightarrow> bool \<Rightarrow> error + phrase list" where
  "get_aligned_phrases X tables root_phrase axis direct infer =
     (case table root_phrase of
        None \<Rightarrow> Inl AttributeError
      | Some t \<Rightarrow>
          collect (map (\<lambda>c. case infer_cell tables c (other_axis axis) direct infer of
                               Inl e \<Rightarrow> Inl e
                             | Inr ic \<Rightarrow> Inr (filter (\<lambda>phrase. phrase \<noteq> root_phrase) (phrases_of ic)))
                       (filter (\<lambda>c. is_axis_aligned X root_phrase c axis) (tables t))))"

text \<open>\<open>tokens_to_ngrams(getattr(phrase, attrib), ...)\<close>, for each phrase of a list in turn.\<close>

definition phrase_ngrams_of ::
  "externals \<Rightarrow> string \<Rightarrow> int \<Rightarrow> int \<Rightarrow> bool \<Rightarrow> phrase \<Rightarrow> string gen" where
  "phrase_ngrams_of X attrib n_min n_max lower phrase =
     (case map_of (attribs phrase) attrib of
        None \<Rightarrow> gen_raise AttributeError
      | Some toks \<Rightarrow> gen_yield (tokens_to_ngrams X toks n_min n_max lower))"

text \<open>
  \<^verbatim>\<open>
  def _get_axis_ngrams(span, axis, direct=True, infer=False, attrib='words', ...):
      for ngram in get_phrase_ngrams(span, ...):
          yield ngram
      if (span.parent.cell is not None):
          for phrase in _get_aligned_phrases(span.parent, axis, direct=direct, infer=infer):
              for ngram in tokens_to_ngrams(getattr(phrase, attrib), ...):
                  yield ngram
  \<close>
\<close>

definition get_axis_ngrams ::
  "externals \<Rightarrow> (nat \<Rightarrow> cell list) \<Rightarrow> span \<Rightarrow> axis \<Rightarrow> bool \<Rightarrow> bool \<Rightarrow> string \<Rightarrow> int \<Rightarrow> int \<Rightarrow> bool
     \<Rightarrow> string gen" where
  "get_axis_ngrams X tables span axis direct infer attrib n_min n_max lower =
     gen_then (get_phrase_ngrams X (ASpan span) attrib n_min n_max lower)
       (if cell (parent span) \<noteq> None then
          (case get_aligned_phrases X tables (parent span) axis direct infer of
             Inl e \<Rightarrow> gen_raise e
           | Inr ps \<Rightarrow> gen_chain (map (phrase_ngrams_of X attrib n_min n_max lower) ps))
        else gen_yield [])"

text \<open>
  \<open>get_row_ngrams\<close> and \<open>get_col_ngrams\<close>:
  \<^verbatim>\<open>
  spans = [c] if isinstance(c, TemporarySpan) else c.get_arguments()
  for span in spans:
      for ngram in _get_axis_ngrams(span, axis='row', direct=direct, infer=infer, ...):
          yield ngram
  \<close>
\<close>

definition get_row_ngrams ::
  "externals \<Rightarrow> (nat \<Rightarrow> cell list) \<Rightarrow> lf_input \<Rightarrow> bool \<Rightarrow> bool \<Rightarrow> string \<Rightarrow> int \<Rightarrow> int \<Rightarrow> bool
     \<Rightarrow> string gen" where
  "get_row_ngrams X tables c direct infer attrib n_min n_max lower =
     gen_chain (map (\<lambda>a. case a of
                       OtherArg \<Rightarrow> gen_raise AttributeError
                     | SpanArg span \<Rightarrow>
                         get_axis_ngrams X tables span Row direct infer attrib n_min n_max lower)
                (spans_of c))"

definition get_col_ngrams ::
  "externals \<Rightarrow> (nat \<Rightarrow> cell list) \<Rightarrow> lf_input \<Rightarrow> bool \<Rightarrow> bool \<Rightarrow> string \<Rightarrow> int \<Rightarrow> int \<Rightarrow> bool
     \<Rightarrow> string gen" where
  "get_col_ngrams X tables c direct infer attrib n_min n_max lower =
     gen_chain (map (\<lambda>a. case a of
                       OtherArg \<Rightarrow> gen_raise AttributeError
                     | SpanArg span \<Rightarrow>
                         get_axis_ngrams X tables span Col direct infer attrib n_min n_max lower)
                (spans_of c))"

text \<open>
  What \<open>get_neighbor_cell_ngrams\<close> yields: an n-gram, or with \<open>directions\<close> a pair
  of an n-gram and a direction.
\<close>

datatype item = Ngram string | Directed string string

text \<open>
  \<^verbatim>\<open>
  direction = ''
  if col_diff==0:
      if 0 < row_diff and row_diff <= dist:
          direction = "UP"
      elif  0 > row_diff and row_diff >= -dist:
          direction = "DOWN"
  elif row_diff==0:
      if 0 < col_diff and col_diff <= dist:
          direction = "RIGHT"
      elif  0 > col_diff and col_diff >= -dist:
          direction = "LEFT"
  \<close>
\<close>

definition direction_of :: "int \<Rightarrow> int \<Rightarrow> int \<Rightarrow> string" where
  "direction_of row_diff col_diff dist =
     (if col_diff = 0 then
        (if 0 < row_diff \<and> row_diff \<le> dist then ''UP''
         else if 0 > row_diff \<and> row_diff \<ge> - dist then ''DOWN''
         else [])
      else if row_diff = 0 then
        (if 0 < col_diff \<and> col_diff \<le> dist then ''RIGHT''
         else if 0 > col_diff \<and> col_diff \<ge> - dist then ''LEFT''
         else [])
      else [])"

text \<open>
  The test on a phrase of the inner loop, with Python's truth of integers:
  \<^verbatim>\<open>
  (row_diff or col_diff) and not (row_diff and col_diff) and abs(row_diff) + abs(col_diff) <= dist
  \<close>
\<close>

definition within_one_axis :: "int \<Rightarrow> int \<Rightarrow> int \<Rightarrow> bool" where
  "within_one_axis row_diff col_diff dist =
     ((row_diff \<noteq> 0 \<or> col_diff \<noteq> 0) \<and> \<not> (row_diff \<noteq> 0 \<and> col_diff \<noteq> 0)
      \<and> abs row_diff + abs col_diff \<le> dist)"

text \<open>The inner loop of \<open>get_neighbor_cell_ngrams\<close>, over the aligned phrases.\<close>

fun neighbor_phrases ::
  "externals \<Rightarrow> nat option \<Rightarrow> int \<Rightarrow> bool \<Rightarrow> string \<Rightarrow> int \<Rightarrow> int \<Rightarrow> bool \<Rightarrow> phrase list \<Rightarrow> item gen"
  where
  "neighbor_phrases X root_cell dist directions attrib n_min n_max lower [] = ([], None)"
| "neighbor_phrases X root_cell dist directions attrib n_min n_max lower (phrase # rest) =
     (let row_diff = min_row_diff X phrase root_cell;
          col_diff = min_col_diff X phrase root_cell
      in if within_one_axis row_diff col_diff dist then
           (case map_of (attribs phrase) attrib of
              None \<Rightarrow> gen_raise AttributeError
            | Some toks \<Rightarrow>
                gen_then
                  (gen_yield (map (\<lambda>ngram. if directions
                                     then Directed ngram (direction_of row_diff col_diff dist)
                                     else Ngram ngram)
                                (tokens_to_ngrams X toks n_min n_max lower)))
                  (neighbor_phrases X root_cell dist directions attrib n_min n_max lower rest))
         else neighbor_phrases X root_cell dist directions attrib n_min n_max lower rest)"

text \<open>
  \<^verbatim>\<open>
  def get_neighbor_cell_ngrams(c, dist=1, directions=False, attrib='words', ...):
      spans = [c] if isinstance(c, TemporarySpan) else c.get_arguments()
      for span in spans:
          for ngram in get_phrase_ngrams(span, ...):
              yield ngram
          if span.parent.row_start is not None and span.parent.col_start is not None:
              root_cell = span.parent.cell
              for phrase in chain.from_iterable([_get_aligned_phrases(phrase, 'row'),
                                                 _get_aligned_phrases(phrase, 'col')]):
                  ...
  \<close>
  The loop over the spans, with the local name \<open>phrase\<close> as state: \<open>None\<close> while it
  is unbound. The two calls of \<open>_get_aligned_phrases\<close> read \<open>phrase\<close> before the
  inner loop binds it; after the inner loop it holds the last phrase visited.
\<close>

fun neighbor_spans ::
  "externals \<Rightarrow> (nat \<Rightarrow> cell list) \<Rightarrow> int \<Rightarrow> bool \<Rightarrow> string \<Rightarrow> int \<Rightarrow> int \<Rightarrow> bool
     \<Rightarrow> phrase option \<Rightarrow> arg list \<Rightarrow> item gen" where
  "neighbor_spans X tables dist directions attrib n_min n_max lower bound [] = ([], None)"
| "neighbor_spans X tables dist directions attrib n_min n_max lower bound (OtherArg # spans) =
     gen_raise AttributeError"
| "neighbor_spans X tables dist directions attrib n_min n_max lower bound (SpanArg span # spans) =
     (let own = get_phrase_ngrams X (ASpan span) attrib n_min n_max lower in
      gen_then (map Ngram (fst own), snd own)
        (if row_start (parent span) \<noteq> None \<and> col_start (parent span) \<noteq> None then
           (case bound of
              None \<Rightarrow> gen_raise UnboundLocalError
            | Some phrase \<Rightarrow>
                (case get_aligned_phrases X tables phrase Row True False of
                   Inl e \<Rightarrow> gen_raise e
                 | Inr in_row \<Rightarrow>
                     (case get_aligned_phrases X tables phrase Col True False of
                        Inl e \<Rightarrow> gen_raise e
                      | Inr in_col \<Rightarrow>
                          gen_then
                            (neighbor_phrases X (cell (parent span)) dist directions attrib
                               n_min n_max lower (in_row @ in_col))
                            (neighbor_spans X tables dist directions attrib n_min n_max lower
                               (if in_row @ in_col = [] then bound else Some (last (in_row @ in_col)))
                               spans))))
         else neighbor_spans X tables dist directions attrib n_min n_max lower bound spans))"

definition get_neighbor_cell_ngrams ::
  "externals \<Rightarrow> (nat \<Rightarrow> cell list) \<Rightarrow> lf_input \<Rightarrow> int \<Rightarrow> bool \<Rightarrow> string \<Rightarrow> int \<Rightarrow> int \<Rightarrow> bool
     \<Rightarrow> item gen" where
  "get_neighbor_cell_ngrams X tables c dist directions attrib n_min n_max lower =
     neighbor_spans X tables dist directions attrib n_min n_max lower None (spans_of c)"

section \<open>lf\_helpers.py: visual features\<close>

text \<open>
  The attributes of a phrase that the visual pass reads: its page, its own lists of
  coordinates (\<open>span.top\<close>, ...; empty when it has none), the lists
  \<open>get_attrib_tokens\<close> returns for the four coordinates, and its lemmas; and the
  attribute the pass writes, \<open>_aligned_lemmas\<close> (\<open>None\<close> while the phrase has no such
  attribute).
\<close>

record vphrase =
  page :: nat
  box_top :: "int list"
  box_bottom :: "int list"
  box_left :: "int list"
  box_right :: "int list"
  tok_top :: "int list"
  tok_bottom :: "int list"
  tok_left :: "int list"
  tok_right :: "int list"
  phrase_lemmas :: "string list"
  aligned_lemmas :: "string set option"

record bbox =
  bb_top :: int
  bb_bottom :: int
  bb_left :: int
  bb_right :: int

text \<open>\<open>min\<close> and \<open>max\<close> of a list raise \<open>ValueError\<close> on the empty list.\<close>

definition py_min :: "int list \<Rightarrow> error + int" where
  "py_min xs = (case xs of [] \<Rightarrow> Inl (ValueError ''min() arg is an empty sequence'')
                | x # rest \<Rightarrow> Inr (fold min rest x))"

definition py_max :: "int list \<Rightarrow> error + int" where
  "py_max xs = (case xs of [] \<Rightarrow> Inl (ValueError ''max() arg is an empty sequence'')
                | x # rest \<Rightarrow> Inr (fold max rest x))"

definition make_bbox :: "int list \<Rightarrow> int list \<Rightarrow> int list \<Rightarrow> int list \<Rightarrow> error + bbox option" where
  "make_bbox tops bottoms lefts rights =
     (case py_min tops of Inl e \<Rightarrow> Inl e | Inr t \<Rightarrow>
      case py_max bottoms of Inl e \<Rightarrow> Inl e | Inr b \<Rightarrow>
      case py_min lefts of Inl e \<Rightarrow> Inl e | Inr l \<Rightarrow>
      case py_max rights of Inl e \<Rightarrow> Inl e | Inr r \<Rightarrow>
        Inr (Some \<lparr>bb_top = t, bb_bottom = b, bb_left = l, bb_right = r\<rparr>))"

text \<open>
  \<^verbatim>\<open>
  def _bbox_from_span(span):
      if isinstance(span, Phrase) and span.top:
          return _Bbox(min(span.top), max(span.bottom), min(span.left), max(span.right))
      if span.get_attrib_tokens('top'):
          return _Bbox(min(span.get_attrib_tokens('top')), ...)
      else:
          return None
  \<close>
  applied to a phrase, as the visual pass does.
\<close>

definition bbox_from_span :: "vphrase \<Rightarrow> error + bbox option" where
  "bbox_from_span span =
     (if box_top span \<noteq> [] then
        make_bbox (box_top span) (box_bottom span) (box_left span) (box_right span)
      else if tok_top span \<noteq> [] then
        make_bbox (tok_top span) (tok_bottom span) (tok_left span) (tok_right span)
      else Inr None)"

text \<open>
  A \<open>defaultdict(list)\<close> filled by \<open>d[key].append(v)\<close>: the keys with their lists.
  Python leaves the order of the keys open; the model keeps them in the order of
  their first insertion.
\<close>

fun dict_append :: "'k \<Rightarrow> 'v \<Rightarrow> ('k \<times> 'v list) list \<Rightarrow> ('k \<times> 'v list) list" where
  "dict_append k v [] = [(k, [v])]"
| "dict_append k v ((k', vs) # d) =
     (if k = k' then (k', vs @ [v]) # d else (k', vs) # dict_append k v d)"

definition group_by :: "('v \<Rightarrow> 'k) \<Rightarrow> 'v list \<Rightarrow> ('k \<times> 'v list) list" where
  "group_by key vs = fold (\<lambda>v d. dict_append (key v) v d) vs []"

text \<open>
  The state of a document: the cache flag \<open>_visual_features\<close> and its phrases. The
  pass names a phrase by its index in \<open>doc.phrases\<close>.
\<close>

record doc =
  visual_features :: bool
  doc_phrases :: "vphrase list"

text \<open>
  The loop over the phrases of one group in \<open>_assign_alignment_features\<close>, with the
  set \<open>context_lemmas\<close>:
  \<^verbatim>\<open>
  for p in phrases:
      p._aligned_lemmas.update(context_lemmas)
      if len(p.lemmas) < 7:
          new_lemmas = [lemma.lower() for lemma in p.lemmas if lemma.isalpha()]
          context_lemmas.update(new_lemmas)
          context_lemmas.update(align_type + lemma for lemma in new_lemmas)
  \<close>
\<close>

fun assign_group :: "string \<Rightarrow> string set \<Rightarrow> nat list \<Rightarrow> vphrase list \<Rightarrow> error + vphrase list" where
  "assign_group align_type context_lemmas [] ps = Inr ps"
| "assign_group align_type context_lemmas (i # rest) ps =
     (case aligned_lemmas (ps ! i) of
        None \<Rightarrow> Inl AttributeError
      | Some al \<Rightarrow>
          (let p = ps ! i;
               ps' = ps[i := p\<lparr>aligned_lemmas := Some (al \<union> context_lemmas)\<rparr>];
               new_lemmas = map py_lower (filter py_isalpha (phrase_lemmas p))
           in assign_group align_type
                (if length (phrase_lemmas p) < 7
                 then context_lemmas \<union> set new_lemmas \<union> set (map (\<lambda>lemma. align_type @ lemma) new_lemmas)
                 else context_lemmas)
                rest ps'))"

text \<open>
  \<^verbatim>\<open>
  def _assign_alignment_features(phrases_by_key, align_type):
      for key, phrases in phrases_by_key.iteritems():
          if len(phrases) == 1: continue
          context_lemmas = set()
          for p in phrases: ...
  \<close>
\<close>

fun assign_alignment_features ::
  "(int \<times> nat list) list \<Rightarrow> string \<Rightarrow> vphrase list \<Rightarrow> error + vphrase list" where
  "assign_alignment_features [] align_type ps = Inr ps"
| "assign_alignment_features ((k, members) # groups) align_type ps =
     (if length members = 1 then assign_alignment_features groups align_type ps
      else (case assign_group align_type {} members ps of
              Inl e \<Rightarrow> Inl e
            | Inr ps' \<Rightarrow> assign_alignment_features groups align_type ps'))"

text \<open>
  The first loop over the phrases of a page, which gives each phrase its box and the
  four alignment keys \<open>(yc, x0, x1, xc)\<close>:
  \<^verbatim>\<open>
  phrase.bbox = _bbox_from_span(phrase)
  phrase.yc = (phrase.bbox.top + phrase.bbox.bottom)/2
  phrase.x0 = phrase.bbox.left
  phrase.x1 = phrase.bbox.right
  phrase.xc = (phrase.x0 + phrase.x1) / 2
  \<close>
  Reading \<open>.top\<close> of \<open>None\<close> raises \<open>AttributeError\<close>; \<open>/\<close> is Python 2's integer
  division.
\<close>

fun alignment_keys :: "vphrase list \<Rightarrow> nat list \<Rightarrow> error + (nat \<times> int \<times> int \<times> int \<times> int) list" where
  "alignment_keys ps [] = Inr []"
| "alignment_keys ps (i # rest) =
     (case bbox_from_span (ps ! i) of
        Inl e \<Rightarrow> Inl e
      | Inr None \<Rightarrow> Inl AttributeError
      | Inr (Some b) \<Rightarrow>
          (case alignment_keys ps rest of
             Inl e \<Rightarrow> Inl e
           | Inr ks \<Rightarrow>
               Inr ((i, (bb_top b + bb_bottom b) div 2, bb_left b, bb_right b,
                     (bb_left b + bb_right b) div 2) # ks)))"

text \<open>
  One alignment type on one page: the phrases grouped by the key, each group sorted by
  the key (\<open>l.sort(key=...)\<close>, a stable sort), and the features assigned.
\<close>

definition align_by ::
  "((nat \<times> int \<times> int \<times> int \<times> int) \<Rightarrow> int) \<Rightarrow> string \<Rightarrow> (nat \<times> int \<times> int \<times> int \<times> int) list
     \<Rightarrow> vphrase list \<Rightarrow> error + vphrase list" where
  "align_by key align_type keyed ps =
     assign_alignment_features
       (map (\<lambda>(k, l). (k, map fst (sort_key key l))) (group_by key keyed)) align_type ps"

text \<open>The loop over the pages of \<open>_preprocess_visual_features\<close>.\<close>

fun process_pages :: "nat list list \<Rightarrow> vphrase list \<Rightarrow> vphrase list \<times> error option" where
  "process_pages [] ps = (ps, None)"
| "process_pages (members # pages) ps =
     (case alignment_keys ps members of
        Inl e \<Rightarrow> (ps, Some e)
      | Inr keyed \<Rightarrow>
          (case align_by (\<lambda>(i, yc, x0, x1, xc). yc) ''Y_'' keyed ps of
             Inl e \<Rightarrow> (ps, Some e)
           | Inr ps1 \<Rightarrow>
          (case align_by (\<lambda>(i, yc, x0, x1, xc). x0) ''LEFT_'' keyed ps1 of
             Inl e \<Rightarrow> (ps1, Some e)
           | Inr ps2 \<Rightarrow>
          (case align_by (\<lambda>(i, yc, x0, x1, xc). x1) ''RIGHT_'' keyed ps2 of
             Inl e \<Rightarrow> (ps2, Some e)
           | Inr ps3 \<Rightarrow>
          (case align_by (\<lambda>(i, yc, x0, x1, xc). xc) ''CENTER_'' keyed ps3 of
             Inl e \<Rightarrow> (ps3, Some e)
           | Inr ps4 \<Rightarrow> process_pages pages ps4)))))"

text \<open>
  \<^verbatim>\<open>
  def _preprocess_visual_features(doc):
      if hasattr(doc, '_visual_features'): return
      doc._visual_features = True
      phrase_by_page = defaultdict(list)
      for phrase in doc.phrases:
          phrase_by_page[phrase.page].append(phrase)
          phrase._aligned_lemmas = set()
      for page, phrases in phrase_by_page.iteritems():
          ...
  \<close>
  The result is the document as the call leaves it and the exception it raised, if any.
\<close>

definition preprocess_visual_features :: "doc \<Rightarrow> doc \<times> error option" where
  "preprocess_visual_features d =
     (if visual_features d then (d, None)
      else
        (let ps = map (\<lambda>p. p\<lparr>aligned_lemmas := Some {}\<rparr>) (doc_phrases d);
             phrase_by_page = group_by (\<lambda>i. page (ps ! i)) [0..<length ps];
             r = process_pages (map snd phrase_by_page) ps
         in (\<lparr>visual_features = True, doc_phrases = fst r\<rparr>, snd r)))"

text \<open>
  \<open>get_aligned_lemmas(span)\<close>, for a span whose parent is phrase \<open>i\<close> of the
  document: the pass, then the set \<open>phrase._aligned_lemmas\<close>.
\<close>

definition get_aligned_lemmas :: "doc \<Rightarrow> nat \<Rightarrow> doc \<times> (error + string set)" where
  "get_aligned_lemmas d i =
     (let r = preprocess_visual_features d in
      case snd r of
        Some e \<Rightarrow> (fst r, Inl e)
      | None \<Rightarrow>
          (case aligned_lemmas (doc_phrases (fst r) ! i) of
             None \<Rightarrow> (fst r, Inl AttributeError)
           | Some al \<Rightarrow> (fst r, Inr al)))"

text \<open>
  Two states of the phrases give every phrase the same box: the pass changes
  \<open>_aligned_lemmas\<close> only.
\<close>

definition same_boxes :: "vphrase list \<Rightarrow> vphrase list \<Rightarrow> bool" where
  "same_boxes ps ps' \<longleftrightarrow> map bbox_from_span ps' = map bbox_from_span ps"

section \<open>Example inputs\<close>

text \<open>
  An instance of the imported names for evaluating the helpers on examples: unigrams and
  longer windows from \<open>slice_into_ngrams\<close> with a space as delimiter, and a phrase
  aligned with a cell on an axis when the phrase starts where the cell starts.
\<close>

definition example_externals :: externals where
  "example_externals =
     \<lparr>tokens_to_ngrams = (\<lambda>toks n_min n_max lower. slice_into_ngrams toks n_max '' ''),
      is_axis_aligned = (\<lambda>p c axis. case axis of
                           Row \<Rightarrow> row_start p = Some (cell_row_start c)
                         | Col \<Rightarrow> col_start p = Some (cell_col_start c)),
      min_row_diff = (\<lambda>p c. 0),
      min_col_diff = (\<lambda>p c. 0)\<rparr>"

text \<open>A sentence of five tokens, and spans over its tokens: a b, b and d.\<close>

definition sentence5 :: phrase where
  "sentence5 =
     \<lparr>phrase_id = 0, phrase_text = ''a b c d e'',
      attribs = [(''words'', [''a'', ''b'', ''c'', ''d'', ''e''])],
      table = None, cell = None, row_start = None, col_start = None\<rparr>"

definition span_ab :: span where
  "span_ab = \<lparr>parent = sentence5, char_start = 0, char_end = 2, word_start = 0, word_end = 1\<rparr>"

definition span_b :: span where
  "span_b = \<lparr>parent = sentence5, char_start = 2, char_end = 2, word_start = 1, word_end = 1\<rparr>"

definition span_d :: span where
  "span_d = \<lparr>parent = sentence5, char_start = 6, char_end = 6, word_start = 3, word_end = 3\<rparr>"

text \<open>A span in another sentence.\<close>

definition span_elsewhere :: span where
  "span_elsewhere =
     \<lparr>parent = sentence5\<lparr>phrase_id := 1\<rparr>,
      char_start = 0, char_end = 0, word_start = 0, word_end = 0\<rparr>"

text \<open>
  A table of two rows and two columns. The cell in row 1, column 0 is empty; the others
  hold one phrase each.
\<close>

definition mk_phrase :: "nat \<Rightarrow> string list \<Rightarrow> nat \<Rightarrow> nat \<Rightarrow> nat \<Rightarrow> phrase" where
  "mk_phrase i ws c r k =
     \<lparr>phrase_id = i, phrase_text = join '' '' ws, attribs = [(''words'', ws)],
      table = Some 0, cell = Some c, row_start = Some r, col_start = Some k\<rparr>"

definition mk_cell :: "nat \<Rightarrow> string \<Rightarrow> nat \<Rightarrow> nat \<Rightarrow> phrase list \<Rightarrow> cell" where
  "mk_cell i txt r k ps =
     \<lparr>cell_id = i, cell_text = txt,
      row = \<lparr>line_id = r, position = r\<rparr>, col = \<lparr>line_id = k, position = k\<rparr>,
      cell_row_start = r, cell_col_start = k, phrases = ps, cell_table = 0\<rparr>"

definition ph_total :: phrase where
  "ph_total = mk_phrase 1 [''Total'', ''due''] 0 0 0"

definition ph_seven :: phrase where
  "ph_seven = mk_phrase 2 [''7''] 1 0 1"

definition ph_nine :: phrase where
  "ph_nine = mk_phrase 3 [''9''] 3 1 1"

definition cell_a :: cell where
  "cell_a = mk_cell 0 ''<td>Total due</td>'' 0 0 [ph_total]"

definition cell_b :: cell where
  "cell_b = mk_cell 1 ''<td>7</td>'' 0 1 [ph_seven]"

definition cell_c :: cell where
  "cell_c = mk_cell 2 ''<td></td>'' 1 0 []"

definition cell_d :: cell where
  "cell_d = mk_cell 3 ''<td>9</td>'' 1 1 [ph_nine]"

definition grid :: "nat \<Rightarrow> cell list" where
  "grid t = [cell_a, cell_b, cell_c, cell_d]"

text \<open>The same table with, in row 1, column 0, a cell whose text has nine characters.\<close>

definition cell_digits :: cell where
  "cell_digits = mk_cell 2 ''123456789'' 1 0 [mk_phrase 4 [''123456789''] 2 1 0]"

definition grid_digits :: "nat \<Rightarrow> cell list" where
  "grid_digits t = [cell_a, cell_b, cell_digits, cell_d]"

text \<open>Spans over the first token of the phrases Total due, 7 and 9.\<close>

definition span_total :: span where
  "span_total = \<lparr>parent = ph_total, char_start = 0, char_end = 4, word_start = 0, word_end = 0\<rparr>"

definition span_seven :: span where
  "span_seven = \<lparr>parent = ph_seven, char_start = 0, char_end = 0, word_start = 0, word_end = 0\<rparr>"

definition span_nine :: span where
  "span_nine = \<lparr>parent = ph_nine, char_start = 0, char_end = 0, word_start = 0, word_end = 0\<rparr>"




text \<open>A document of one phrase that has no coordinates at all.\<close>

definition bare_phrase :: vphrase where
  "bare_phrase =
     \<lparr>page = 1, box_top = [], box_bottom = [], box_left = [], box_right = [],
      tok_top = [], tok_bottom = [], tok_left = [], tok_right = [],
      phrase_lemmas = [''Total''], aligned_lemmas = None\<rparr>"

definition doc_bare :: doc where
  "doc_bare = \<lparr>visual_features = False, doc_phrases = [bare_phrase]\<rparr>"

section \<open>Slices and generators\<close>

lemma py_slice_nat: "py_slice xs (int a) (int b) = take (b - a) (drop a xs)"
  by (cases "a < length xs") (auto simp: py_slice_def py_index_def Let_def min_def)

lemma py_slice_ngram:
  "py_slice tokens (int root) (int root + int n + 1) = take (Suc n) (drop root tokens)"
  using py_slice_nat [of tokens root "root + n + 1"] by (simp add: algebra_simps)

lemma gen_then_yield [simp]: "gen_then (gen_yield xs) h = (xs @ fst h, snd h)"
  by (simp add: gen_then_def gen_yield_def)

lemma gen_then_raise [simp]: "gen_then (gen_raise e) h = gen_raise e"
  by (simp add: gen_then_def gen_raise_def)

lemma gen_then_pair [simp]:
  "gen_then (xs, None) h = (xs @ fst h, snd h)" "gen_then (xs, Some e) h = (xs, Some e)"
  by (simp_all add: gen_then_def)

section \<open>The n-gram generator: order and count\<close>

lemma slice_via_indices:
  "slice_into_ngrams tokens n_max delim =
     map (\<lambda>(root, n). join delim (take (Suc n) (drop root tokens)))
       (loop_indices (length tokens) n_max)"
  by (simp add: slice_into_ngrams_def loop_indices_def map_concat comp_def py_slice_ngram)

lemma sorted_lex_blocks:
  "sorted_wrt (<) rs \<Longrightarrow> (\<And>r. sorted_wrt (<) (g r)) \<Longrightarrow>
   sorted_wrt (\<lambda>(r, n) (r', n'). r < r' \<or> (r = r' \<and> n < n'))
     (concat (map (\<lambda>r. map (\<lambda>n. (r, n)) (g r)) rs))"
  for rs :: "nat list" and g :: "nat \<Rightarrow> nat list"
proof (induction rs)
  case Nil
  then show ?case by simp
next
  case (Cons r rs)
  have "sorted_wrt (\<lambda>(r, n) (r', n'). r < r' \<or> (r = r' \<and> n < n')) (map (\<lambda>n. (r, n)) (g r))"
    using Cons.prems(2) [of r] by (simp add: sorted_wrt_map)
  with Cons show ?case
    by (auto simp: sorted_wrt_append)
qed

lemma loop_indices_lex:
  "sorted_wrt (\<lambda>(r, n) (r', n'). r < r' \<or> (r = r' \<and> n < n')) (loop_indices N n_max)"
  unfolding loop_indices_def py_range_def
  by (rule sorted_lex_blocks) simp_all

lemma loop_indices_same_end:
  "sorted_wrt (\<lambda>(r, n) (r', n'). r + n = r' + n' \<longrightarrow> n' < n) (loop_indices N n_max)"
  by (rule sorted_wrt_mono_rel [OF _ loop_indices_lex]) auto

lemma slice_example:
  "slice_into_ngrams [''the'', ''quick'', ''brown'', ''fox''] 2 '' '' =
     [''the'', ''the quick'', ''quick'', ''quick brown'', ''brown'', ''brown fox'', ''fox'']"
  by (simp add: slice_into_ngrams_def py_range_def py_slice_ngram upt_rec)

lemma slice_mixed_case:
  "slice_into_ngrams [''The'', ''Fox''] 2 '' '' = [''The'', ''The Fox'', ''Fox'']"
  by (simp add: slice_into_ngrams_def py_range_def py_slice_ngram upt_rec)

lemma slice_abc:
  "slice_into_ngrams [''a'', ''b'', ''c''] 2 '' '' = [''a'', ''a b'', ''b'', ''b c'', ''c'']"
  by (simp add: slice_into_ngrams_def py_range_def py_slice_ngram upt_rec)

text \<open>
  C3, as stated, fails on the case folding: the generator has no such switch and yields
  the tokens as they are.
\<close>

theorem slice_into_ngrams_keeps_case:
  "slice_into_ngrams [''The'', ''Fox''] 2 '' '' = [''The'', ''The Fox'', ''Fox''] \<and>
   slice_into_ngrams [''The'', ''Fox''] 2 '' ''
     \<noteq> map py_lower (slice_into_ngrams [''The'', ''Fox''] 2 '' '')"
proof -
  have "py_lower ''The'' \<noteq> ''The''"
    by code_simp
  then show ?thesis
    by (simp add: slice_mixed_case)
qed

text \<open>
  C3 (amended). \<open>slice_into_ngrams\<close> yields the tokens of each window joined by the
  delimiter it is given, unchanged in case. It visits the start positions from left to
  right and, at each, the lengths upwards: the windows come in lexicographic order of
  (start, length), so of two n-grams that end at the same position the longer one is
  yielded first. For the tokens the, quick, brown, fox with \<open>n_max = 2\<close> and a space as
  delimiter it yields the seven n-grams of the example, in the order given here.
\<close>

theorem slice_into_ngrams_scan_order:
  "slice_into_ngrams tokens n_max delim =
     map (\<lambda>(root, n). join delim (take (Suc n) (drop root tokens)))
       (loop_indices (length tokens) n_max) \<and>
   sorted_wrt (\<lambda>(r, n) (r', n'). r < r' \<or> (r = r' \<and> n < n'))
     (loop_indices (length tokens) n_max) \<and>
   sorted_wrt (\<lambda>(r, n) (r', n'). r + n = r' + n' \<longrightarrow> n' < n)
     (loop_indices (length tokens) n_max) \<and>
   slice_into_ngrams [''the'', ''quick'', ''brown'', ''fox''] 2 '' '' =
     [''the'', ''the quick'', ''quick'', ''quick brown'', ''brown'', ''brown fox'', ''fox'']"
  using slice_via_indices loop_indices_lex loop_indices_same_end slice_example
  by blast

theorem slice_into_ngrams_scan_order_witness:
  "slice_into_ngrams [''a'', ''b'', ''c''] 2 '' '' =
     map (\<lambda>(root, n). join '' '' (take (Suc n) (drop root [''a'', ''b'', ''c''])))
       [(0, 0), (0, 1), (1, 0), (1, 1), (2, 0)] \<and>
   loop_indices 3 2 = [(0, 0), (0, 1), (1, 0), (1, 1), (2, 0)] \<and>
   sorted_wrt (\<lambda>(r, n) (r', n'). r + n = r' + n' \<longrightarrow> n' < n)
     [(0, 0), (0, 1), (1, 0), (1, 1), (2 :: nat, 0 :: nat)]"
proof -
  have idx: "loop_indices 3 2 = [(0, 0), (0, 1), (1, 0), (1, 1), (2, 0)]"
    by (simp add: loop_indices_def py_range_def upt_rec)
  then have idx': "loop_indices (Suc (Suc (Suc 0))) 2 = [(0, 0), (0, 1), (1, 0), (1, 1), (2, 0)]"
    by (simp add: numeral_3_eq_3)
  show ?thesis
    using slice_into_ngrams_scan_order [of "[''a'', ''b'', ''c'']" 2 "'' ''"]
    by (simp add: idx idx')
qed

section \<open>The n-gram generator: how many items\<close>

lemma ngram_count_step:
  "(\<Sum>n = 1..M. Suc N + 1 - n) = (\<Sum>n = 1..M. N + 1 - n) + min M (Suc N)"
  by (induction M) auto

lemma ngram_count_sum:
  "(\<Sum>root < N. min M (N - root)) = (\<Sum>n = 1..M. N + 1 - n)" for N M :: nat
proof (induction N)
  case 0
  then show ?case by simp
next
  case (Suc N)
  have "(\<Sum>root < Suc N. min M (Suc N - root)) = min M (Suc N) + (\<Sum>root < N. min M (N - root))"
    by (subst sum.lessThan_Suc_shift) simp
  also have "\<dots> = min M (Suc N) + (\<Sum>n = 1..M. N + 1 - n)"
    by (simp only: Suc.IH)
  also have "\<dots> = (\<Sum>n = 1..M. Suc N + 1 - n)"
    using ngram_count_step [where M = M and N = N] by linarith
  finally show ?case .
qed

lemma nat_min_window: "nat (min m (int N - int r)) = min (nat m) (N - r)"
  by arith

lemma length_slice_into_ngrams:
  "length (slice_into_ngrams tokens n_max delim) = spec_ngram_count (length tokens) 1 (nat n_max)"
proof -
  have "length (slice_into_ngrams tokens n_max delim) =
          (\<Sum>root < length tokens. min (nat n_max) (length tokens - root))"
    by (simp add: slice_into_ngrams_def py_range_def length_concat comp_def
        interv_sum_list_conv_sum_set_nat atLeast0LessThan nat_min_window)
  then show ?thesis
    by (simp add: ngram_count_sum spec_ngram_count_def)
qed

lemma slice_item_tokens:
  assumes "x \<in> set (slice_into_ngrams tokens n_max delim)"
  shows "\<exists>root k. 1 \<le> k \<and> int k \<le> n_max \<and> root + k \<le> length tokens \<and>
           x = join delim (take k (drop root tokens))"
proof -
  from assms obtain root n where rn: "root < length tokens"
    "n < nat (min n_max (int (length tokens) - int root))"
    "x = join delim (take (Suc n) (drop root tokens))"
    by (auto simp: slice_into_ngrams_def py_range_def py_slice_ngram)
  then have "1 \<le> Suc n \<and> int (Suc n) \<le> n_max \<and> root + Suc n \<le> length tokens"
    by auto
  with rn(3) show ?thesis by blast
qed

text \<open>
  C4, as stated, fails for a lower bound above one: the generator takes no \<open>n_min\<close>.
  For two tokens and \<open>n_min = n_max = 2\<close> the claim counts one item of two tokens; the
  generator, given \<open>n_max = 2\<close>, yields three, the single tokens among them.
\<close>

theorem slice_into_ngrams_has_no_n_min:
  "length (slice_into_ngrams [''a'', ''b''] 2 '' '') \<noteq> spec_ngram_count (length [''a'', ''b'']) 2 2 \<and>
   slice_into_ngrams [''a'', ''b''] 2 '' '' = [''a'', ''a b'', ''b'']"
  by (simp add: slice_into_ngrams_def py_range_def py_slice_ngram upt_rec spec_ngram_count_def)

text \<open>
  C4 (amended). For every token sequence and every \<open>n_max\<close>, \<open>slice_into_ngrams\<close>
  yields exactly the sum over the lengths \<open>n\<close> from 1 to \<open>n_max\<close> of \<open>len - n + 1\<close>
  items (zero for a length above \<open>len\<close>); each item is the join of a window of between
  1 and \<open>n_max\<close> consecutive tokens; the empty sequence yields nothing. The lower bound
  is always 1.
\<close>

theorem slice_into_ngrams_count:
  "length (slice_into_ngrams tokens n_max delim) = spec_ngram_count (length tokens) 1 (nat n_max) \<and>
   (\<forall>x \<in> set (slice_into_ngrams tokens n_max delim).
      \<exists>root k. 1 \<le> k \<and> int k \<le> n_max \<and> root + k \<le> length tokens \<and>
        x = join delim (take k (drop root tokens))) \<and>
   slice_into_ngrams [] n_max delim = []"
  using length_slice_into_ngrams slice_item_tokens
  by (auto simp: slice_into_ngrams_def py_range_def)

theorem slice_into_ngrams_count_witness:
  "length (slice_into_ngrams [''a'', ''b'', ''c''] 2 '' '') = 5 \<and>
   spec_ngram_count 3 1 2 = 5 \<and>
   ''b c'' \<in> set (slice_into_ngrams [''a'', ''b'', ''c''] 2 '' '') \<and>
   (\<exists>root k. 1 \<le> k \<and> int k \<le> 2 \<and> root + k \<le> 3 \<and>
      ''b c'' = join '' '' (take k (drop root [''a'', ''b'', ''c''])))"
proof -
  have mem: "''b c'' \<in> set (slice_into_ngrams [''a'', ''b'', ''c''] 2 '' '')"
    by (simp add: slice_abc)
  have cnt: "spec_ngram_count 3 1 2 = 5"
    by (simp add: spec_ngram_count_def numeral_2_eq_2)
  from slice_into_ngrams_count [of "[''a'', ''b'', ''c'']" 2 "'' ''"] mem
  have "\<exists>root k. 1 \<le> k \<and> int k \<le> 2 \<and> root + k \<le> 3 \<and>
          ''b c'' = join '' '' (take k (drop root [''a'', ''b'', ''c'']))"
    by fastforce
  with mem cnt show ?thesis
    by (simp add: slice_abc)
qed

section \<open>The between-extractor\<close>

lemma py_slice_eval [simp]:
  "0 \<le> a \<Longrightarrow> 0 \<le> b \<Longrightarrow> py_slice xs a b = take (nat b - nat a) (drop (nat a) xs)"
  using py_slice_nat [of xs "nat a" "nat b"] by simp

text \<open>
  Where the code does read the gap: the first span is a single token and comes first.
\<close>

lemma between_single_token_first:
  assumes "parent s0 = parent s1" "word_end s0 = word_start s0" "word_start s0 < word_start s1"
    "map_of (attribs (parent s0)) attrib = Some toks"
  shows "get_between_ngrams X (Candidate [SpanArg s0, SpanArg s1]) attrib n_min n_max lower
           = (tokens_to_ngrams X (spec_between_tokens toks s0 s1) n_min n_max lower, None)"
proof -
  have "abs (int (word_start s0) - int (word_start s1)) - 1
          = int (word_start s1) - int (word_start s0) - 1"
    using assms(3) by simp
  then show ?thesis
    using assms
    by (simp add: get_between_ngrams_def get_arguments_def get_right_ngrams_def last_span_def
        gen_yield_def spec_between_tokens_def Let_def)
qed

text \<open>
  C1. The claim: for two spans of one parent, \<open>get_between_ngrams\<close> yields the n-grams
  of exactly the tokens strictly between them, for every order and every width. The
  code takes the window from the distance of the two word starts. With a first span of
  two tokens (a b) before the span d, the window handed to \<open>tokens_to_ngrams\<close>
  is c, d: it reaches into the second span, where the tokens between are c alone.
\<close>

theorem between_wide_first_span:
  "get_between_ngrams X (Candidate [SpanArg span_ab, SpanArg span_d]) ''words'' n_min n_max lower
     = (tokens_to_ngrams X [''c'', ''d''] n_min n_max lower, None) \<and>
   spec_between_tokens [''a'', ''b'', ''c'', ''d'', ''e''] span_ab span_d = [''c''] \<and>
   get_between_ngrams example_externals (Candidate [SpanArg span_ab, SpanArg span_d]) ''words'' 1 1 True
     = ([''c'', ''d''], None)"
  by (simp add: get_between_ngrams_def get_arguments_def get_right_ngrams_def last_span_def
      span_ab_def span_d_def sentence5_def gen_yield_def spec_between_tokens_def
      example_externals_def slice_into_ngrams_def py_range_def upt_rec)

text \<open>
  C2. The claim: the result for (A, B) equals the result for (B, A). With the spans b and
  d, the candidate (b, d) reads the token c between them; the candidate (d, b) takes
  the else-branch, which reads to the left of the span b and yields a.
\<close>

theorem between_depends_on_order:
  "get_between_ngrams X (Candidate [SpanArg span_b, SpanArg span_d]) ''words'' n_min n_max lower
     = (tokens_to_ngrams X [''c''] n_min n_max lower, None) \<and>
   get_between_ngrams X (Candidate [SpanArg span_d, SpanArg span_b]) ''words'' n_min n_max lower
     = (tokens_to_ngrams X [''a''] n_min n_max lower, None) \<and>
   get_between_ngrams example_externals (Candidate [SpanArg span_b, SpanArg span_d]) ''words'' 1 1 True
     = ([''c''], None) \<and>
   get_between_ngrams example_externals (Candidate [SpanArg span_d, SpanArg span_b]) ''words'' 1 1 True
     = ([''a''], None)"
  by (simp add: get_between_ngrams_def get_arguments_def get_right_ngrams_def last_span_def
      get_left_ngrams_def first_span_def
      span_b_def span_d_def sentence5_def gen_yield_def 
      example_externals_def slice_into_ngrams_def py_range_def upt_rec)

section \<open>Input-contract errors\<close>

lemma tag_spans_non_span:
  "OtherArg \<in> set args \<Longrightarrow> \<exists>m. tag_spans i args = Inl (ValueError m)"
proof (induction args arbitrary: i)
  case Nil
  then show ?case by simp
next
  case (Cons a args)
  show ?case
  proof (cases a)
    case (SpanArg s)
    with Cons.prems have "OtherArg \<in> set args" by simp
    from Cons.IH [OF this, of "Suc i"] SpanArg show ?thesis by auto
  next
    case OtherArg
    then show ?thesis by simp
  qed
qed

lemma tag_spans_descriptive:
  "OtherArg \<in> set args \<Longrightarrow> i + length args \<le> 192 \<Longrightarrow>
   tag_spans i args = Inl (ValueError ''Handles Span-type Candidate arguments only'')"
proof (induction args arbitrary: i)
  case Nil
  then show ?case by simp
next
  case (Cons a args)
  show ?case
  proof (cases a)
    case (SpanArg s)
    with Cons.prems have mem: "OtherArg \<in> set args" by simp
    then have pos: "1 \<le> length args" by (cases args) auto
    have "i + Suc (length args) \<le> 192" using Cons.prems(2) by simp
    with pos have le: "Suc i + length args \<le> 192" and lt: "65 + i < 256" by linarith+
    from Cons.IH [OF mem le] lt SpanArg show ?thesis by simp
  next
    case OtherArg
    then show ?thesis by simp
  qed
qed

lemma get_right_not_value_error:
  "snd (get_right_ngrams X (ASpan s) w attrib n_min n_max lower) \<noteq> Some (ValueError m)"
  by (simp add: get_right_ngrams_def last_span_def gen_raise_def gen_yield_def Let_def
      split: option.splits)

lemma get_left_not_value_error:
  "snd (get_left_ngrams X (ASpan s) w attrib n_min n_max lower) \<noteq> Some (ValueError m)"
  by (simp add: get_left_ngrams_def first_span_def gen_raise_def gen_yield_def Let_def
      split: option.splits)

text \<open>
  C9, as stated, fails on the moment of the failure: \<open>get_between_ngrams\<close> is a
  generator function, so invoking it on a candidate of one span, or of two spans of
  different parents, raises nothing and returns a generator. The \<open>ValueError\<close> comes
  when that generator is first advanced.
\<close>

theorem calling_between_ngrams_raises_nothing:
  "call_get_between_ngrams example_externals (Candidate [SpanArg span_b]) ''words'' 1 1 True
     = Inr (Generator ([], Some (ValueError ''Only applicable to binary Candidates''))) \<and>
   call_get_between_ngrams example_externals (Candidate [SpanArg span_b]) ''words'' 1 1 True
     \<noteq> Inl (ValueError ''Only applicable to binary Candidates'') \<and>
   call_get_between_ngrams example_externals (Candidate [SpanArg span_b, SpanArg span_elsewhere])
       ''words'' 1 1 True
     = Inr (Generator ([], Some (ValueError
          ''Only applicable to Candidates where both spans are from the same immediate Context.''))) \<and>
   fst (py_next (Generator ([], Some (ValueError ''Only applicable to binary Candidates''))
                   :: string generator))
     = Inl (ValueError ''Only applicable to binary Candidates'')"
  by (simp add: call_get_between_ngrams_def get_between_ngrams_def get_arguments_def gen_raise_def
      py_next_def span_b_def span_elsewhere_def sentence5_def)

text \<open>
  C9 (amended). Invoking \<open>get_between_ngrams\<close> never fails: it returns a generator.
  When the candidate has not exactly two arguments, or its two spans have different
  parents, the first \<open>next\<close> on that generator raises the descriptive \<open>ValueError\<close>
  before anything is yielded, and the list alias \<open>get_between_tokens\<close>, which runs
  the generator itself, fails with it when invoked. With two spans of one parent no
  \<open>ValueError\<close> is raised, neither at the first \<open>next\<close> nor later.
  \<open>get_text_splits\<close>, which is no generator, raises a \<open>ValueError\<close> when invoked
  with an argument that is not a span; it is the one with the descriptive message for
  every candidate of at most 192 arguments (beyond that, \<open>chr\<close> may raise its own
  first).
\<close>

theorem contract_errors_on_iteration:
  "call_get_between_ngrams X c attrib n_min n_max lower
     = Inr (Generator (get_between_ngrams X c attrib n_min n_max lower)) \<and>
   (length args \<noteq> 2 \<longrightarrow>
      get_between_ngrams X (Candidate args) attrib n_min n_max lower
        = ([], Some (ValueError ''Only applicable to binary Candidates'')) \<and>
      fst (py_next (Generator (get_between_ngrams X (Candidate args) attrib n_min n_max lower)))
        = Inl (ValueError ''Only applicable to binary Candidates'') \<and>
      get_between_tokens X (Candidate args) attrib n_min n_max lower
        = Inl (ValueError ''Only applicable to binary Candidates'')) \<and>
   (parent s0 \<noteq> parent s1 \<longrightarrow>
      get_between_ngrams X (Candidate [SpanArg s0, SpanArg s1]) attrib n_min n_max lower
        = ([], Some (ValueError
             ''Only applicable to Candidates where both spans are from the same immediate Context.'')) \<and>
      fst (py_next (Generator
             (get_between_ngrams X (Candidate [SpanArg s0, SpanArg s1]) attrib n_min n_max lower)))
        = Inl (ValueError
             ''Only applicable to Candidates where both spans are from the same immediate Context.'') \<and>
      get_between_tokens X (Candidate [SpanArg s0, SpanArg s1]) attrib n_min n_max lower
        = Inl (ValueError
             ''Only applicable to Candidates where both spans are from the same immediate Context.'')) \<and>
   (parent s0 = parent s1 \<longrightarrow>
      (\<forall>g m. py_next (Generator
                 (get_between_ngrams X (Candidate [SpanArg s0, SpanArg s1]) attrib n_min n_max lower))
               \<noteq> (Inl (ValueError m), g)) \<and>
      (\<forall>m. snd (get_between_ngrams X (Candidate [SpanArg s0, SpanArg s1]) attrib n_min n_max lower)
              \<noteq> Some (ValueError m)) \<and>
      (\<forall>m. get_between_tokens X (Candidate [SpanArg s0, SpanArg s1]) attrib n_min n_max lower
              \<noteq> Inl (ValueError m))) \<and>
   (OtherArg \<in> set args \<longrightarrow> (\<exists>m. get_text_splits (Candidate args) = Inl (ValueError m))) \<and>
   (OtherArg \<in> set args \<and> length args \<le> 192 \<longrightarrow>
      get_text_splits (Candidate args)
        = Inl (ValueError ''Handles Span-type Candidate arguments only''))"
proof -
  have tokens: "get_between_tokens X c' attrib n_min n_max lower =
      (case get_between_ngrams X c' attrib n_min n_max lower of
         (ngrams, None) \<Rightarrow> Inr ngrams | (ngrams, Some e) \<Rightarrow> Inl e)" for c'
    by (simp add: get_between_tokens_def call_get_between_ngrams_def py_list_def)
  have arity: "get_between_ngrams X (Candidate args) attrib n_min n_max lower
        = ([], Some (ValueError ''Only applicable to binary Candidates''))" if "length args \<noteq> 2"
    using that by (simp add: get_between_ngrams_def get_arguments_def gen_raise_def)
  have parents: "get_between_ngrams X (Candidate [SpanArg s0, SpanArg s1]) attrib n_min n_max lower
        = ([], Some (ValueError
             ''Only applicable to Candidates where both spans are from the same immediate Context.''))"
    if "parent s0 \<noteq> parent s1"
    using that by (simp add: get_between_ngrams_def get_arguments_def gen_raise_def)
  have fine: "snd (get_between_ngrams X (Candidate [SpanArg s0, SpanArg s1]) attrib n_min n_max lower)
              \<noteq> Some (ValueError m)" if "parent s0 = parent s1" for m
    using that by (simp add: get_between_ngrams_def get_arguments_def Let_def
        get_right_not_value_error get_left_not_value_error)
  have fine': "get_between_tokens X (Candidate [SpanArg s0, SpanArg s1]) attrib n_min n_max lower
              \<noteq> Inl (ValueError m)" if "parent s0 = parent s1" for m
    using fine [OF that, of m] by (auto simp: tokens split: prod.splits option.splits)
  have fine'': "py_next (Generator
                 (get_between_ngrams X (Candidate [SpanArg s0, SpanArg s1]) attrib n_min n_max lower))
               \<noteq> (Inl (ValueError m), g)" if "parent s0 = parent s1" for m g
    using fine [OF that, of m]
    by (auto simp: py_next_def split: prod.splits option.splits list.splits)
  have splits: "\<exists>m. get_text_splits (Candidate args) = Inl (ValueError m)" if "OtherArg \<in> set args"
    using tag_spans_non_span [OF that, of 0] by (auto simp: get_text_splits_def get_arguments_def)
  have descriptive: "get_text_splits (Candidate args)
        = Inl (ValueError ''Handles Span-type Candidate arguments only'')"
    if "OtherArg \<in> set args \<and> length args \<le> 192"
    using tag_spans_descriptive [of args 0] that by (simp add: get_text_splits_def get_arguments_def)
  show ?thesis
    using arity parents fine fine' fine'' splits descriptive
    by (simp add: call_get_between_ngrams_def tokens py_next_def)
qed

theorem contract_errors_on_iteration_witness:
  "get_between_ngrams example_externals (Candidate [SpanArg span_b]) ''words'' 1 1 True
     = ([], Some (ValueError ''Only applicable to binary Candidates'')) \<and>
   get_between_tokens example_externals (Candidate [SpanArg span_b]) ''words'' 1 1 True
     = Inl (ValueError ''Only applicable to binary Candidates'') \<and>
   get_between_ngrams example_externals (Candidate [SpanArg span_b, SpanArg span_elsewhere])
       ''words'' 1 1 True
     = ([], Some (ValueError
          ''Only applicable to Candidates where both spans are from the same immediate Context.'')) \<and>
   get_between_tokens example_externals (Candidate [SpanArg span_b, SpanArg span_elsewhere])
       ''words'' 1 1 True
     = Inl (ValueError
          ''Only applicable to Candidates where both spans are from the same immediate Context.'') \<and>
   snd (get_between_ngrams example_externals (Candidate [SpanArg span_b, SpanArg span_d])
          ''words'' 1 1 True)
     \<noteq> Some (ValueError ''Only applicable to binary Candidates'') \<and>
   get_between_tokens example_externals (Candidate [SpanArg span_b, SpanArg span_d])
       ''words'' 1 1 True
     \<noteq> Inl (ValueError ''Only applicable to binary Candidates'') \<and>
   get_text_splits (Candidate [SpanArg span_b, OtherArg])
     = Inl (ValueError ''Handles Span-type Candidate arguments only'')"
proof -
  have diff: "parent span_b \<noteq> parent span_elsewhere"
    by (simp add: span_b_def span_elsewhere_def sentence5_def)
  have same: "parent span_b = parent span_d"
    by (simp add: span_b_def span_d_def)
  have arity: "length [SpanArg span_b] \<noteq> 2"
    by simp
  have other: "OtherArg \<in> set [SpanArg span_b, OtherArg] \<and> length [SpanArg span_b, OtherArg] \<le> 192"
    by simp
  show ?thesis
    using contract_errors_on_iteration [where args = "[SpanArg span_b]" and X = example_externals
        and attrib = "''words''" and n_min = 1 and n_max = 1 and lower = True
        and ?s0.0 = span_b and ?s1.0 = span_elsewhere] arity diff
      contract_errors_on_iteration [where args = "[SpanArg span_b, OtherArg]" and X = example_externals
        and attrib = "''words''" and n_min = 1 and n_max = 1 and lower = True
        and ?s0.0 = span_b and ?s1.0 = span_d] same other
    by blast
qed

section \<open>Cell inference\<close>

lemma infer_cell_nonempty:
  "\<not> is_empty c \<Longrightarrow>
   infer_cell tables c axis direct infer = (if direct then Inr (RealCell c) else Inr (PhantomCell []))"
  by (subst infer_cell.simps) simp


lemma collect_skip:
  "(\<And>x. x \<in> set xs \<Longrightarrow> \<not> P x \<Longrightarrow> f x = Inr []) \<Longrightarrow>
   collect (map f xs) = collect (map f (filter P xs))"
proof (induction xs)
  case Nil
  then show ?case by simp
next
  case (Cons x xs)
  then have IH: "collect (map f xs) = collect (map f (filter P xs))" by simp
  show ?case
  proof (cases "P x")
    case True
    with IH show ?thesis by (cases "f x") simp_all
  next
    case False
    with Cons.prems have "f x = Inr []" by simp
    with False IH show ?thesis by (simp split: sum.splits)
  qed
qed

lemma collect_all_empty:
  "(\<And>x. x \<in> set xs \<Longrightarrow> f x = Inr []) \<Longrightarrow> collect (map f xs) = Inr []"
  by (induction xs) simp_all

lemma gen_then_done [simp]: "gen_then g ([], None) = g"
  by (cases g) (simp add: gen_then_def split: option.splits)


lemma aligned_phrases_infer_noop:
  assumes "\<And>t c. table p = Some t \<Longrightarrow> c \<in> set (tables t) \<Longrightarrow> is_axis_aligned X p c axis
             \<Longrightarrow> \<not> is_empty c"
  shows "get_aligned_phrases X tables p axis direct True
           = get_aligned_phrases X tables p axis direct False"
proof (cases "table p")
  case None
  then show ?thesis by (simp add: get_aligned_phrases_def)
next
  case (Some t)
  have eq: "map (\<lambda>c. case infer_cell tables c (other_axis axis) direct True of
                    Inl e \<Rightarrow> Inl e
                  | Inr ic \<Rightarrow> Inr (filter (\<lambda>phrase. phrase \<noteq> p) (phrases_of ic)))
          (filter (\<lambda>c. is_axis_aligned X p c axis) (tables t))
        = map (\<lambda>c. case infer_cell tables c (other_axis axis) direct False of
                    Inl e \<Rightarrow> Inl e
                  | Inr ic \<Rightarrow> Inr (filter (\<lambda>phrase. phrase \<noteq> p) (phrases_of ic)))
          (filter (\<lambda>c. is_axis_aligned X p c axis) (tables t))"
    using assms [OF Some] by (intro map_cong refl) (simp add: infer_cell_nonempty)
  show ?thesis
    by (simp only: get_aligned_phrases_def Some option.case eq)
qed

lemma axis_ngrams_infer_noop:
  assumes "\<And>t c. table (parent s) = Some t \<Longrightarrow> c \<in> set (tables t)
             \<Longrightarrow> is_axis_aligned X (parent s) c axis \<Longrightarrow> \<not> is_empty c"
  shows "get_axis_ngrams X tables s axis direct True attrib n_min n_max lower
           = get_axis_ngrams X tables s axis direct False attrib n_min n_max lower"
  using aligned_phrases_infer_noop [of "parent s" tables X axis direct, OF assms]
  by (simp add: get_axis_ngrams_def)

text \<open>
  Where every cell aligned with the phrase of each span is non-empty as \<open>_infer_cell\<close>
  tests it (the text has not nine characters), \<open>get_row_ngrams\<close> and
  \<open>get_col_ngrams\<close> return with \<open>infer=True\<close> what they return with
  \<open>infer=False\<close>, whatever \<open>direct\<close> is: the yielded n-grams and the error, if any.
\<close>

lemma infer_noop_on_nonempty_cells:
  assumes "\<And>s t c axis. SpanArg s \<in> set (spans_of inp) \<Longrightarrow> table (parent s) = Some t \<Longrightarrow>
             c \<in> set (tables t) \<Longrightarrow> is_axis_aligned X (parent s) c axis \<Longrightarrow> \<not> is_empty c"
  shows "get_row_ngrams X tables inp direct True attrib n_min n_max lower
           = get_row_ngrams X tables inp direct False attrib n_min n_max lower \<and>
         get_col_ngrams X tables inp direct True attrib n_min n_max lower
           = get_col_ngrams X tables inp direct False attrib n_min n_max lower"
proof -
  have "\<And>axis. map (\<lambda>a. case a of
                   OtherArg \<Rightarrow> gen_raise AttributeError
                 | SpanArg span \<Rightarrow>
                     get_axis_ngrams X tables span axis direct True attrib n_min n_max lower)
          (spans_of inp)
        = map (\<lambda>a. case a of
                   OtherArg \<Rightarrow> gen_raise AttributeError
                 | SpanArg span \<Rightarrow>
                     get_axis_ngrams X tables span axis direct False attrib n_min n_max lower)
          (spans_of inp)"
  proof (intro map_cong refl)
    fix axis a
    assume a: "a \<in> set (spans_of inp)"
    show "(case a of OtherArg \<Rightarrow> gen_raise AttributeError
           | SpanArg span \<Rightarrow> get_axis_ngrams X tables span axis direct True attrib n_min n_max lower)
        = (case a of OtherArg \<Rightarrow> gen_raise AttributeError
           | SpanArg span \<Rightarrow> get_axis_ngrams X tables span axis direct False attrib n_min n_max lower)"
    proof (cases a)
      case (SpanArg s)
      with a assms have "\<And>t c. table (parent s) = Some t \<Longrightarrow> c \<in> set (tables t)
             \<Longrightarrow> is_axis_aligned X (parent s) c axis \<Longrightarrow> \<not> is_empty c"
        by blast
      from axis_ngrams_infer_noop [OF this] SpanArg show ?thesis by simp
    next
      case OtherArg
      then show ?thesis by simp
    qed
  qed
  then show ?thesis
    unfolding get_row_ngrams_def get_col_ngrams_def by (simp only:)
qed

lemmas ex_defs = example_externals_def grid_def cell_a_def cell_b_def cell_c_def cell_d_def
  mk_cell_def mk_phrase_def ph_total_def ph_seven_def ph_nine_def span_seven_def span_nine_def
  span_total_def

lemma row_seven_direct:
  "get_row_ngrams example_externals grid (ASpan span_seven) True False ''words'' 1 1 True
     = ([''Total'', ''due''], None)"
  by code_simp

lemma col_seven_direct:
  "get_col_ngrams example_externals grid (ASpan span_seven) True False ''words'' 1 1 True
     = ([''9''], None)"
  by code_simp


lemma infer_noop_on_nonempty_cells_example:
  "get_row_ngrams example_externals grid (ASpan span_seven) True True ''words'' 1 1 True
     = ([''Total'', ''due''], None) \<and>
   get_row_ngrams example_externals grid (ASpan span_seven) True False ''words'' 1 1 True
     = ([''Total'', ''due''], None) \<and>
   get_col_ngrams example_externals grid (ASpan span_seven) True True ''words'' 1 1 True
     = ([''9''], None) \<and>
   get_col_ngrams example_externals grid (ASpan span_seven) True False ''words'' 1 1 True
     = ([''9''], None)"
proof -
  have nonempty: "\<not> is_empty c"
    if "SpanArg s \<in> set (spans_of (ASpan span_seven))" "c \<in> set (grid t)"
      "is_axis_aligned example_externals (parent s) c axis" for s t c axis
  proof -
    from that(1) have s: "s = span_seven" by (simp add: spans_of_def)
    from that(2) consider "c = cell_a" | "c = cell_b" | "c = cell_c" | "c = cell_d"
      by (auto simp: grid_def)
    then show ?thesis
    proof cases
      case 3
      with that(3) s show ?thesis
        by (cases axis) (simp_all add: ex_defs)
    qed (simp_all add: is_empty_def ex_defs)
  qed
  show ?thesis
    using infer_noop_on_nonempty_cells [of "ASpan span_seven" grid example_externals True
        "''words''" 1 1 True] nonempty row_seven_direct col_seven_direct
    by auto
qed


lemma gen_then_empty_yield [simp]: "gen_then g (gen_yield []) = g"
  by (simp add: gen_yield_def)













text \<open>The test does hold of the text it is meant for.\<close>

lemma empty_td_is_empty: "cell_text c = ''<td></td>'' \<Longrightarrow> is_empty c"
  by (simp add: is_empty_def)

text \<open>
  C7. The claim: a cell counts as empty exactly when its text is \<open><td></td>\<close>. The
  code counts the characters: every text of nine characters is empty to it, as its own
  comment says of this test. A cell with the text 123456789 is taken for empty, and so
  is an empty header cell \<open><th></th>\<close>; inference then replaces the cell by the one
  above it, so the row n-grams of a span beside it lose its content for the content of
  the other cell.
\<close>

theorem nine_characters_count_as_empty:
  "is_empty cell_digits \<and> cell_text cell_digits \<noteq> ''<td></td>'' \<and>
   is_empty (cell_digits\<lparr>cell_text := ''<th></th>''\<rparr>) \<and>
   infer_cell grid_digits cell_digits Col True True = Inr (RealCell cell_a) \<and>
   get_row_ngrams example_externals grid_digits (ASpan span_nine) True True ''words'' 1 1 True
     = ([''Total'', ''due''], None) \<and>
   get_row_ngrams example_externals grid_digits (ASpan span_nine) True False ''words'' 1 1 True
     = ([''123456789''], None)"
  by code_simp

section \<open>Neighbour cells\<close>

text \<open>
  Whatever the input: once a span whose phrase has a row and a column is among the
  arguments, the generator ends in an exception, and no item it yields carries a
  direction.
\<close>

lemma neighbor_spans_raise:
  assumes "SpanArg s \<in> set spans" "row_start (parent s) \<noteq> None" "col_start (parent s) \<noteq> None"
  shows "snd (neighbor_spans X tables dist directions attrib n_min n_max lower None spans) \<noteq> None"
  using assms(1)
proof (induction spans)
  case Nil
  then show ?case by simp
next
  case (Cons a spans)
  show ?case
  proof (cases a)
    case OtherArg
    then show ?thesis by (simp add: gen_raise_def)
  next
    case (SpanArg s')
    show ?thesis
    proof (cases "snd (get_phrase_ngrams X (ASpan s') attrib n_min n_max lower)")
      case (Some e)
      with SpanArg show ?thesis by (simp add: gen_then_def Let_def)
    next
      case None
      show ?thesis
      proof (cases "row_start (parent s') \<noteq> None \<and> col_start (parent s') \<noteq> None")
        case True
        with SpanArg None show ?thesis
          by (simp add: gen_then_def gen_raise_def Let_def)
      next
        case False
        with assms(2,3) have "s \<noteq> s'" by auto
        with Cons.prems SpanArg have "SpanArg s \<in> set spans" by simp
        from Cons.IH [OF this] SpanArg None False show ?thesis
          by (auto simp: gen_then_def Let_def)
      qed
    qed
  qed
qed

lemma neighbor_spans_plain:
  "x \<in> set (fst (neighbor_spans X tables dist directions attrib n_min n_max lower None spans))
   \<Longrightarrow> \<exists>ngram. x = Ngram ngram"
proof (induction spans)
  case Nil
  then show ?case by simp
next
  case (Cons a spans)
  show ?case
  proof (cases a)
    case OtherArg
    with Cons.prems show ?thesis by (simp add: gen_raise_def)
  next
    case (SpanArg s')
    with Cons show ?thesis
      by (auto simp: gen_then_def gen_raise_def Let_def split: option.splits if_splits)
  qed
qed


text \<open>
  C5. The claim: for a span whose phrase has a row and a column,
  \<open>get_neighbor_cell_ngrams\<close> yields n-grams from the aligned phrases one axis away.
  The code reads the name \<open>phrase\<close> in \<open>_get_aligned_phrases(phrase, 'row')\<close> before
  the loop binds it: after the n-grams of the span's own phrase it raises
  \<open>UnboundLocalError\<close>, with or without \<open>directions\<close>, and no aligned phrase is
  ever visited.
\<close>

theorem neighbor_cells_unbound_phrase:
  "get_neighbor_cell_ngrams example_externals grid (ASpan span_total) 1 False ''words'' 1 1 True
     = ([Ngram ''due''], Some UnboundLocalError) \<and>
   get_neighbor_cell_ngrams example_externals grid (ASpan span_total) 1 True ''words'' 1 1 True
     = ([Ngram ''due''], Some UnboundLocalError)"
  by code_simp

section \<open>The visual pass\<close>

text \<open>
  Every phrase is in the group of its page, and the pass leaves the boxes as they are;
  so one phrase without coordinates, on whichever page, makes the whole pass raise.
\<close>

lemma dict_append_members:
  "(\<Union>g \<in> set (dict_append k v d). set (snd g)) = insert v (\<Union>g \<in> set d. set (snd g))"
proof (induction d)
  case Nil
  then show ?case by simp
next
  case (Cons g d)
  obtain k' vs where g: "g = (k', vs)" by (cases g)
  show ?case
  proof (cases "k = k'")
    case True
    with g show ?thesis by auto
  next
    case False
    with g Cons.IH show ?thesis by auto
  qed
qed

lemma group_by_members_fold:
  "(\<Union>g \<in> set (fold (\<lambda>v d. dict_append (key v) v d) vs d). set (snd g))
     = set vs \<union> (\<Union>g \<in> set d. set (snd g))"
proof (induction vs arbitrary: d)
  case Nil
  then show ?case by simp
next
  case (Cons v vs)
  have "(\<Union>g \<in> set (fold (\<lambda>v d. dict_append (key v) v d) (v # vs) d). set (snd g))
      = set vs \<union> (\<Union>g \<in> set (dict_append (key v) v d). set (snd g))"
    by (simp only: fold_Cons comp_def Cons.IH)
  also have "\<dots> = set (v # vs) \<union> (\<Union>g \<in> set d. set (snd g))"
    by (simp only: dict_append_members) auto
  finally show ?case .
qed

lemma group_by_members: "(\<Union>g \<in> set (group_by key vs). set (snd g)) = set vs"
  using group_by_members_fold [of key vs "[]"] by (simp add: group_by_def)

lemma alignment_keys_fail:
  "i \<in> set idxs \<Longrightarrow> bbox_from_span (ps ! i) = Inr None \<Longrightarrow> \<exists>e. alignment_keys ps idxs = Inl e"
  by (induction idxs) (auto split: sum.splits option.splits)

lemma same_boxes_refl [simp]: "same_boxes ps ps"
  by (simp add: same_boxes_def)

lemma same_boxes_trans: "same_boxes ps ps' \<Longrightarrow> same_boxes ps' ps'' \<Longrightarrow> same_boxes ps ps''"
  by (simp add: same_boxes_def)

lemma bbox_ignores_lemmas:
  "bbox_from_span (p\<lparr>aligned_lemmas := al\<rparr>) = bbox_from_span p"
  by (simp add: bbox_from_span_def)

lemma same_boxes_update:
  "same_boxes ps (ps[i := (ps ! i)\<lparr>aligned_lemmas := al\<rparr>])"
proof (cases "i < length ps")
  case True
  then have "(map bbox_from_span ps)[i := bbox_from_span (ps ! i)] = map bbox_from_span ps"
    by (metis list_update_id nth_map)
  then show ?thesis
    by (simp add: same_boxes_def map_update bbox_ignores_lemmas)
next
  case False
  then have "ps[i := (ps ! i)\<lparr>aligned_lemmas := al\<rparr>] = ps"
    by (simp add: list_update_beyond)
  then show ?thesis by (simp add: same_boxes_def)
qed

lemma assign_group_boxes:
  "assign_group align_type ctx idxs ps = Inr ps' \<Longrightarrow> same_boxes ps ps'"
proof (induction idxs arbitrary: ctx ps)
  case Nil
  then show ?case by simp
next
  case (Cons i idxs)
  from Cons.prems obtain al where al: "aligned_lemmas (ps ! i) = Some al"
    by (auto split: option.splits)
  with Cons.prems obtain ctx' where
    "assign_group align_type ctx' idxs (ps[i := (ps ! i)\<lparr>aligned_lemmas := Some (al \<union> ctx)\<rparr>]) = Inr ps'"
    by (auto simp: Let_def)
  from Cons.IH [OF this] same_boxes_update [of ps i] show ?case
    by (blast intro: same_boxes_trans)
qed

lemma assign_features_boxes:
  "assign_alignment_features groups align_type ps = Inr ps' \<Longrightarrow> same_boxes ps ps'"
proof (induction groups arbitrary: ps)
  case Nil
  then show ?case by simp
next
  case (Cons g groups)
  obtain k members where g: "g = (k, members)" by (cases g)
  show ?case
  proof (cases "length members = 1")
    case True
    with Cons g show ?thesis by simp
  next
    case False
    with Cons.prems g obtain ps1 where 1: "assign_group align_type {} members ps = Inr ps1"
      and 2: "assign_alignment_features groups align_type ps1 = Inr ps'"
      by (auto split: sum.splits)
    from assign_group_boxes [OF 1] Cons.IH [OF 2] show ?thesis
      by (rule same_boxes_trans)
  qed
qed

lemma align_by_boxes: "align_by key align_type keyed ps = Inr ps' \<Longrightarrow> same_boxes ps ps'"
  unfolding align_by_def by (rule assign_features_boxes)

lemma same_boxes_nth:
  "same_boxes ps ps' \<Longrightarrow> i < length ps \<Longrightarrow> bbox_from_span (ps' ! i) = bbox_from_span (ps ! i)"
  unfolding same_boxes_def
  by (metis length_map nth_map)

lemma same_boxes_length: "same_boxes ps ps' \<Longrightarrow> length ps' = length ps"
  unfolding same_boxes_def by (metis length_map)

lemma process_pages_fail:
  assumes "members \<in> set pages" "i \<in> set members" "i < length ps"
    "bbox_from_span (ps ! i) = Inr None"
  shows "snd (process_pages pages ps) \<noteq> None"
  using assms
proof (induction pages arbitrary: ps)
  case Nil
  then show ?case by simp
next
  case (Cons pg pages)
  show ?case
  proof (cases "alignment_keys ps pg")
    case (Inl e)
    then show ?thesis by simp
  next
    case (Inr keyed)
    with alignment_keys_fail [of i pg ps] Cons.prems have not_here: "i \<notin> set pg"
      by auto
    with Cons.prems have mem: "members \<in> set pages" by auto
    show ?thesis
    proof (cases "snd (process_pages (pg # pages) ps) = None")
      case False
      then show ?thesis .
    next
      case True
      with Inr obtain ps1 ps2 ps3 ps4 where
        1: "align_by (\<lambda>(i, yc, x0, x1, xc). yc) ''Y_'' keyed ps = Inr ps1" and
        2: "align_by (\<lambda>(i, yc, x0, x1, xc). x0) ''LEFT_'' keyed ps1 = Inr ps2" and
        3: "align_by (\<lambda>(i, yc, x0, x1, xc). x1) ''RIGHT_'' keyed ps2 = Inr ps3" and
        4: "align_by (\<lambda>(i, yc, x0, x1, xc). xc) ''CENTER_'' keyed ps3 = Inr ps4" and
        rest: "process_pages (pg # pages) ps = process_pages pages ps4"
        by (auto split: sum.splits)
      have sb: "same_boxes ps ps4"
        using align_by_boxes [OF 1] align_by_boxes [OF 2] align_by_boxes [OF 3]
          align_by_boxes [OF 4]
        by (blast intro: same_boxes_trans)
      have "i < length ps4" "bbox_from_span (ps4 ! i) = Inr None"
        using same_boxes_length [OF sb] same_boxes_nth [OF sb] Cons.prems(3,4) by simp_all
      from Cons.IH [OF mem Cons.prems(2) this] rest show ?thesis by simp
    qed
  qed
qed

lemma visual_pass_fails:
  assumes "\<not> visual_features d" "p \<in> set (doc_phrases d)" "box_top p = []" "tok_top p = []"
  shows "snd (preprocess_visual_features d) \<noteq> None"
proof -
  define ps where "ps = map (\<lambda>p. p\<lparr>aligned_lemmas := Some {}\<rparr>) (doc_phrases d)"
  from assms(2) obtain i where i: "i < length (doc_phrases d)" "doc_phrases d ! i = p"
    by (auto simp: in_set_conv_nth)
  then have bad: "i < length ps" "bbox_from_span (ps ! i) = Inr None"
    using assms(3,4) by (simp_all add: ps_def bbox_from_span_def)
  have "i \<in> (\<Union>g \<in> set (group_by (\<lambda>i. page (ps ! i)) [0..<length ps]). set (snd g))"
    using bad(1) by (simp only: group_by_members) simp
  then obtain members where
    "members \<in> set (map snd (group_by (\<lambda>i. page (ps ! i)) [0..<length ps]))" "i \<in> set members"
    by auto
  from process_pages_fail [OF this bad]
  show ?thesis
    using assms(1) by (simp add: preprocess_visual_features_def Let_def ps_def)
qed

text \<open>
  C8. The claim: a phrase without any coordinates is skipped without error. For such a
  phrase \<open>_bbox_from_span\<close> returns \<open>None\<close>, and the pass reads
  \<open>phrase.bbox.top\<close> of it at once: the first extraction raises \<open>AttributeError\<close>.
  The flag is set and \<open>_aligned_lemmas\<close> is the empty set by then, so a second
  extraction on the same document returns the empty set.
\<close>

theorem visual_pass_raises_without_coordinates:
  "preprocess_visual_features doc_bare
     = (\<lparr>visual_features = True, doc_phrases = [bare_phrase\<lparr>aligned_lemmas := Some {}\<rparr>]\<rparr>,
        Some AttributeError) \<and>
   snd (get_aligned_lemmas doc_bare 0) = Inl AttributeError \<and>
   snd (get_aligned_lemmas (fst (get_aligned_lemmas doc_bare 0)) 0) = Inr {}"
  by (simp add: get_aligned_lemmas_def preprocess_visual_features_def doc_bare_def
      bare_phrase_def group_by_def bbox_from_span_def Let_def)

end
